theory Spec2Isabelle
  imports Complex_Main "HOL-Library.Sublist"
begin

section \<open>JavaScript values\<close>

text \<open>
  The two modules (\<^verbatim>\<open>src/ai/bedrock-provider.js\<close>, \<^verbatim>\<open>src/ai/bedrock-client.js\<close>)
  work on untyped JSON data. A value is \<open>undefined\<close>, \<open>null\<close>, a boolean, a number, a
  string, an array or a plain object. An object is the list of its own properties in
  insertion order; a property is looked up by its first occurrence. Numbers that the
  code reads from messages are integers here (token counts, lengths).
\<close>

datatype jv =
    JUndef
  | JNull
  | JBool bool
  | JNum int
  | JStr string
  | JArr "jv list"
  | JObj "(string \<times> jv) list"

text \<open>
  What a \<^verbatim>\<open>throw\<close> carries: an error object with a message. \<open>TypeError\<close> is the
  engine's error for reading a property of \<open>undefined\<close>/\<open>null\<close> or iterating a
  value that is not iterable, \<open>SyntaxError\<close> the error of \<^verbatim>\<open>JSON.parse\<close> on a text
  that is not JSON, and \<open>Thrown m\<close> an \<^verbatim>\<open>Error\<close> whose \<^verbatim>\<open>message\<close> is \<open>m\<close>.
\<close>

datatype js_error = TypeError | SyntaxError | Thrown string

fun truthy :: "jv \<Rightarrow> bool" where
  "truthy JUndef = False"
| "truthy JNull = False"
| "truthy (JBool b) = b"
| "truthy (JNum n) = (n \<noteq> 0)"
| "truthy (JStr s) = (s \<noteq> [])"
| "truthy (JArr xs) = True"
| "truthy (JObj kvs) = True"

fun nullish :: "jv \<Rightarrow> bool" where
  "nullish JUndef = True"
| "nullish JNull = True"
| "nullish v = False"

text \<open>
  \<open>js_get v k\<close> is \<^verbatim>\<open>v?.k\<close>, and \<^verbatim>\<open>v.k\<close> where \<open>v\<close> is not nullish (the
  functions below test \<open>nullish\<close> where the source reads a property with a plain dot
  for the first time). None of the keys the code reads is a built-in property of a
  string, an array, a number or a boolean.
\<close>

fun js_get :: "jv \<Rightarrow> string \<Rightarrow> jv" where
  "js_get (JObj kvs) k = (case map_of kvs k of None \<Rightarrow> JUndef | Some v \<Rightarrow> v)"
| "js_get v k = JUndef"

definition js_or :: "jv \<Rightarrow> jv \<Rightarrow> jv" where
  "js_or a b = (if truthy a then a else b)"

fun isString :: "jv \<Rightarrow> bool" where
  "isString (JStr s) = True"
| "isString v = False"

fun map_err :: "('a \<Rightarrow> 'e + 'b) \<Rightarrow> 'a list \<Rightarrow> 'e + 'b list" where
  "map_err f [] = Inr []"
| "map_err f (x # xs) =
     (case f x of
        Inl e \<Rightarrow> Inl e
      | Inr y \<Rightarrow> (case map_err f xs of Inl e \<Rightarrow> Inl e | Inr ys \<Rightarrow> Inr (y # ys)))"

subsection \<open>Number and JSON text\<close>

definition digit_char :: "nat \<Rightarrow> char" where
  "digit_char d = ''0123456789'' ! d"

fun digits :: "nat \<Rightarrow> string" where
  "digits n = (if n < 10 then [digit_char n] else digits (n div 10) @ [digit_char (n mod 10)])"

declare digits.simps [simp del]

definition show_int :: "int \<Rightarrow> string" where
  "show_int i = (if i < 0 then CHR ''-'' # digits (nat (- i)) else digits (nat i))"

definition hex_char :: "nat \<Rightarrow> char" where
  "hex_char d = ''0123456789abcdef'' ! d"

text \<open>
  The escapes of \<^verbatim>\<open>JSON.stringify\<close> for a string: the quote (0x22), the backslash
  (0x5C), the five short control escapes, and \<^verbatim>\<open>\u00XX\<close> for the other characters
  below 0x20.
\<close>

definition escape_char :: "char \<Rightarrow> string" where
  "escape_char c =
     (if c = CHR 0x22 then [CHR 0x5C, CHR 0x22]
      else if c = CHR 0x5C then [CHR 0x5C, CHR 0x5C]
      else if c = CHR 0x08 then [CHR 0x5C, CHR ''b'']
      else if c = CHR 0x0C then [CHR 0x5C, CHR ''f'']
      else if c = CHR 0x0A then [CHR 0x5C, CHR ''n'']
      else if c = CHR 0x0D then [CHR 0x5C, CHR ''r'']
      else if c = CHR 0x09 then [CHR 0x5C, CHR ''t'']
      else if (of_char c :: nat) < 32 then
        [CHR 0x5C, CHR ''u'', CHR ''0'', CHR ''0'',
         hex_char (of_char c div 16), hex_char (of_char c mod 16)]
      else [c])"

definition quote :: "string \<Rightarrow> string" where
  "quote s = CHR 0x22 # concat (map escape_char s) @ [CHR 0x22]"

fun join_comma :: "string list \<Rightarrow> string" where
  "join_comma [] = []"
| "join_comma [s] = s"
| "join_comma (s # t # ts) = s @ '','' @ join_comma (t # ts)"

text \<open>
  \<open>json_text v\<close> is the text \<^verbatim>\<open>JSON.stringify\<close> writes for \<open>v\<close> inside an array or as
  a property value: \<open>undefined\<close> in an array is written \<^verbatim>\<open>null\<close>, a property whose
  value is \<open>undefined\<close> is left out. At top level \<^verbatim>\<open>JSON.stringify(undefined)\<close> is
  \<open>undefined\<close>. The values of this theory are finite trees, so the serialiser meets
  neither a cycle nor a BigInt and never throws.
\<close>

fun json_text :: "jv \<Rightarrow> string" where
  "json_text JUndef = ''null''"
| "json_text JNull = ''null''"
| "json_text (JBool b) = (if b then ''true'' else ''false'')"
| "json_text (JNum n) = show_int n"
| "json_text (JStr s) = quote s"
| "json_text (JArr xs) = ''['' @ join_comma (map json_text xs) @ '']''"
| "json_text (JObj kvs) =
     ''{'' @ join_comma (map (\<lambda>kv. quote (fst kv) @ '':'' @ json_text (snd kv))
                         (filter (\<lambda>kv. snd kv \<noteq> JUndef) kvs)) @ ''}''"

definition JSON_stringify :: "jv \<Rightarrow> jv" where
  "JSON_stringify v = (if v = JUndef then JUndef else JStr (json_text v))"

section \<open>Message transcoder (bedrock-provider.js)\<close>

subsection \<open>Content blocks of the agent protocol\<close>

text \<open>
  The four block kinds the encoder dispatches on, with the fields it reads from each:
  \<^verbatim>\<open>type\<close>/\<^verbatim>\<open>text\<close>; \<^verbatim>\<open>type\<close>/\<^verbatim>\<open>id\<close>/\<^verbatim>\<open>name\<close>/\<^verbatim>\<open>input\<close>;
  \<^verbatim>\<open>type\<close>/\<^verbatim>\<open>tool_use_id\<close>/\<^verbatim>\<open>content\<close>; \<^verbatim>\<open>type\<close>/\<^verbatim>\<open>source\<close> with
  \<^verbatim>\<open>source.type\<close> (read as the format) and \<^verbatim>\<open>source.data\<close> (the bytes).
  \<open>block_json\<close> writes a block as the JSON object of that shape.
\<close>

datatype tool_result_part = TextPart string | ImagePart string string

datatype content_block =
    Text string
  | ToolUse string string jv
  | ToolResult string "tool_result_part list"
  | Image string string

definition image_json :: "string \<Rightarrow> string \<Rightarrow> jv" where
  "image_json fmt bytes =
     JObj [(''type'', JStr ''image''),
           (''source'', JObj [(''type'', JStr fmt), (''data'', JStr bytes)])]"

definition text_json :: "string \<Rightarrow> jv" where
  "text_json t = JObj [(''type'', JStr ''text''), (''text'', JStr t)]"

fun part_json :: "tool_result_part \<Rightarrow> jv" where
  "part_json (TextPart t) = text_json t"
| "part_json (ImagePart fmt bytes) = image_json fmt bytes"

fun block_json :: "content_block \<Rightarrow> jv" where
  "block_json (Text t) = text_json t"
| "block_json (ToolUse i n inp) =
     JObj [(''type'', JStr ''tool_use''), (''id'', JStr i), (''name'', JStr n), (''input'', inp)]"
| "block_json (ToolResult i parts) =
     JObj [(''type'', JStr ''tool_result''), (''tool_use_id'', JStr i),
           (''content'', JArr (map part_json parts))]"
| "block_json (Image fmt bytes) = image_json fmt bytes"

definition message_json :: "string \<Rightarrow> content_block list \<Rightarrow> jv" where
  "message_json r bs = JObj [(''role'', JStr r), (''content'', JArr (map block_json bs))]"

subsection \<open>Encoding: transformToolResultToBedrock, transformMessageToBedrock\<close>

text \<open>
  The object literal \<^verbatim>\<open>{ image: { format: c.source?.type || 'png', source: { bytes:
  c.source?.data || c.source?.bytes } } }\<close>, written twice in the source (for a part
  of a tool result and for a block of a message).
\<close>

definition imagePayload :: "jv \<Rightarrow> jv" where
  "imagePayload c =
     JObj [(''image'',
            JObj [(''format'', js_or (js_get (js_get c ''source'') ''type'') (JStr ''png'')),
                  (''source'',
                   JObj [(''bytes'', js_or (js_get (js_get c ''source'') ''data'')
                                           (js_get (js_get c ''source'') ''bytes''))])])]"

text \<open>The callback of \<^verbatim>\<open>toolResult.content.map\<close>; \<^verbatim>\<open>c.type\<close> throws on a nullish \<open>c\<close>.\<close>

definition toolResultPart :: "jv \<Rightarrow> js_error + jv" where
  "toolResultPart c =
     (if nullish c then Inl TypeError
      else if js_get c ''type'' = JStr ''text'' then Inr (JObj [(''text'', js_get c ''text'')])
      else if js_get c ''type'' = JStr ''image'' then Inr (imagePayload c)
      else Inr (JObj [(''text'', JSON_stringify c)]))"

definition transformToolResultToBedrock :: "jv \<Rightarrow> js_error + jv" where
  "transformToolResultToBedrock toolResult =
     (if nullish toolResult then Inl TypeError
      else case js_get toolResult ''content'' of
        JArr cs \<Rightarrow>
          (case map_err toolResultPart cs of
             Inl e \<Rightarrow> Inl e
           | Inr ys \<Rightarrow>
               Inr (JObj [(''toolUseId'', js_get toolResult ''tool_use_id''),
                          (''content'', JArr ys)]))
      | c \<Rightarrow>
          Inr (JObj [(''toolUseId'', js_get toolResult ''tool_use_id''),
                     (''content'',
                      JArr [JObj [(''text'', if isString c then c else JSON_stringify c)]])]))"

text \<open>The callback of \<^verbatim>\<open>message.content.map\<close>; \<^verbatim>\<open>block.type\<close> throws on a nullish block.\<close>

definition transformBlock :: "jv \<Rightarrow> js_error + jv" where
  "transformBlock block =
     (if nullish block then Inl TypeError
      else if js_get block ''type'' = JStr ''text'' then
        Inr (JObj [(''text'', js_get block ''text'')])
      else if js_get block ''type'' = JStr ''tool_use'' then
        Inr (JObj [(''toolUse'',
                    JObj [(''toolUseId'', js_get block ''id''),
                          (''name'', js_get block ''name''),
                          (''input'', js_get block ''input'')])])
      else if js_get block ''type'' = JStr ''tool_result'' then transformToolResultToBedrock block
      else if js_get block ''type'' = JStr ''image'' then Inr (imagePayload block)
      else Inr (JObj [(''text'', JSON_stringify block)]))"

definition transformMessageToBedrock :: "jv \<Rightarrow> js_error + jv" where
  "transformMessageToBedrock message =
     (if nullish message then Inl TypeError
      else case js_get message ''content'' of
        JStr s \<Rightarrow>
          Inr (JObj [(''role'', js_get message ''role''),
                     (''content'', JArr [JObj [(''text'', JStr s)]])])
      | JArr bs \<Rightarrow>
          (case map_err transformBlock bs of
             Inl e \<Rightarrow> Inl e
           | Inr content \<Rightarrow>
               Inr (JObj [(''role'', js_get message ''role''), (''content'', JArr content)]))
      | c \<Rightarrow>
          Inr (JObj [(''role'', js_get message ''role''),
                     (''content'', JArr [JObj [(''text'', JSON_stringify c)]])]))"

subsection \<open>Decoding: transformBedrockMessage\<close>

text \<open>
  \<^verbatim>\<open>for (const block of v)\<close>: an array gives its elements, a string its characters;
  any other value that passed the truthiness test is not iterable and the loop throws.
\<close>

fun iterate :: "jv \<Rightarrow> js_error + jv list" where
  "iterate (JArr xs) = Inr xs"
| "iterate (JStr s) = Inr (map (\<lambda>c. JStr [c]) s)"
| "iterate v = Inl TypeError"

text \<open>
  What one pass of the loop body pushes for a block that is not nullish: the two
  \<^verbatim>\<open>if\<close>s are independent (no \<^verbatim>\<open>else\<close>), and there is no third branch.
\<close>

definition pushed :: "jv \<Rightarrow> jv list" where
  "pushed block =
     (if truthy (js_get block ''text'') then
        [JObj [(''type'', JStr ''text''), (''text'', js_get block ''text'')]]
      else []) @
     (if truthy (js_get block ''toolUse'') then
        [JObj [(''type'', JStr ''tool_use''),
               (''id'', js_get (js_get block ''toolUse'') ''toolUseId''),
               (''name'', js_get (js_get block ''toolUse'') ''name''),
               (''input'', js_get (js_get block ''toolUse'') ''input'')]]
      else [])"

fun pushAll :: "jv list \<Rightarrow> jv list \<Rightarrow> js_error + jv list" where
  "pushAll content [] = Inr content"
| "pushAll content (block # rest) =
     (if nullish block then Inl TypeError else pushAll (content @ pushed block) rest)"

definition transformBedrockMessage :: "jv \<Rightarrow> string \<Rightarrow> int \<Rightarrow> js_error + jv" where
  "transformBedrockMessage bedrockMessage modelId now =
     (if nullish bedrockMessage then Inl TypeError
      else
        case (if truthy (js_get bedrockMessage ''content'') then
                (case iterate (js_get bedrockMessage ''content'') of
                   Inl e \<Rightarrow> Inl e
                 | Inr blocks \<Rightarrow> pushAll [] blocks)
              else Inr []) of
          Inl e \<Rightarrow> Inl e
        | Inr content \<Rightarrow>
            Inr (JObj
              [(''type'', JStr ''assistant''),
               (''message'',
                JObj [(''id'', js_or (js_get bedrockMessage ''id'')
                                     (JStr (''bedrock-'' @ show_int now))),
                      (''type'', JStr ''message''),
                      (''role'', JStr ''assistant''),
                      (''content'', JArr content),
                      (''model'', JStr modelId),
                      (''stop_reason'', js_get bedrockMessage ''stopReason''),
                      (''usage'',
                       JObj [(''input_tokens'',
                              js_or (js_get (js_get bedrockMessage ''usage'') ''inputTokens'') (JNum 0)),
                             (''output_tokens'',
                              js_or (js_get (js_get bedrockMessage ''usage'') ''outputTokens'') (JNum 0))])])]))"

text \<open>Encoding a message and decoding the result; \<open>now\<close> is what \<^verbatim>\<open>Date.now()\<close> returns.\<close>

definition decode_encode :: "string \<Rightarrow> int \<Rightarrow> jv \<Rightarrow> js_error + jv" where
  "decode_encode modelId now M =
     (case transformMessageToBedrock M of
        Inl e \<Rightarrow> Inl e
      | Inr w \<Rightarrow> transformBedrockMessage w modelId now)"

text \<open>The role and content of a decoded message, as a message of the agent protocol.\<close>

definition decoded_message :: "jv \<Rightarrow> jv" where
  "decoded_message a =
     JObj [(''role'', js_get (js_get a ''message'') ''role''),
           (''content'', js_get (js_get a ''message'') ''content'')]"

subsection \<open>Predicates on blocks\<close>

text \<open>
  A canonical block that \<open>transformBedrockMessage\<close> returns after encoding: a text
  block whose text is not empty, or a tool-use block.
\<close>

fun survives :: "content_block \<Rightarrow> bool" where
  "survives (Text t) = (t \<noteq> [])"
| "survives (ToolUse i n inp) = True"
| "survives (ToolResult i parts) = False"
| "survives (Image fmt bytes) = False"

text \<open>
  A value a content array may hold without the encoder's property reads throwing: it is
  neither \<open>null\<close> nor \<open>undefined\<close>, and neither is a part of its content array when
  it is a tool result.
\<close>

definition block_like :: "jv \<Rightarrow> bool" where
  "block_like b =
     (\<not> nullish b \<and>
      (js_get b ''type'' = JStr ''tool_result'' \<longrightarrow>
         (case js_get b ''content'' of
            JArr cs \<Rightarrow> list_all (\<lambda>c. \<not> nullish c) cs
          | c \<Rightarrow> True)))"

definition unrecognized :: "jv \<Rightarrow> bool" where
  "unrecognized b =
     (js_get b ''type'' \<notin> set [JStr ''text'', JStr ''tool_use'', JStr ''tool_result'', JStr ''image''])"

text \<open>\<open>decode(encode(M))\<close>, read back as a message of the agent protocol.\<close>

definition roundtrip :: "string \<Rightarrow> int \<Rightarrow> jv \<Rightarrow> js_error + jv" where
  "roundtrip modelId now M =
     (case decode_encode modelId now M of
        Inl e \<Rightarrow> Inl e
      | Inr a \<Rightarrow> Inr (decoded_message a))"

section \<open>Conversation driver (bedrockQuery in bedrock-provider.js)\<close>

subsection \<open>Model identifier\<close>

definition modelMap :: "(string \<times> string) list" where
  "modelMap =
     [(''claude-sonnet-4-5-20250929'', ''us.anthropic.claude-sonnet-4-20250514-v1:0''),
      (''claude-3-5-sonnet-20241022'', ''us.anthropic.claude-3-5-sonnet-20241022-v2:0''),
      (''claude-3-5-sonnet-20240620'', ''anthropic.claude-3-5-sonnet-20240620-v1:0''),
      (''claude-3-sonnet-20240229'', ''anthropic.claude-3-sonnet-20240229-v1:0''),
      (''claude-3-opus-20240229'', ''anthropic.claude-3-opus-20240229-v1:0''),
      (''claude-3-haiku-20240307'', ''anthropic.claude-3-haiku-20240307-v1:0'')]"

text \<open>
  The first argument is the environment variable \<^verbatim>\<open>BEDROCK_MODEL_ID\<close> (unset, or a
  string; the empty string is falsy), the second \<^verbatim>\<open>options.model\<close> (\<open>None\<close> when it
  is undefined). Names inherited from \<^verbatim>\<open>Object.prototype\<close> are not keys of the table
  here.
\<close>

definition getBedrockModelId :: "string option \<Rightarrow> string option \<Rightarrow> string" where
  "getBedrockModelId envModelId anthropicModel =
     (case envModelId of
        Some (c # cs) \<Rightarrow> c # cs
      | unset \<Rightarrow>
          (case map_option (map_of modelMap) anthropicModel of
             Some (Some bedrockId) \<Rightarrow> bedrockId
           | missing \<Rightarrow> ''us.anthropic.claude-sonnet-4-20250514-v1:0''))"

subsection \<open>Cost estimate\<close>

text \<open>
  \<^verbatim>\<open>msg.content?.length\<close>: the number of elements of an array, the number of characters
  of a string, the own property \<^verbatim>\<open>length\<close> of a plain object, \<open>undefined\<close> otherwise.
\<close>

fun lengthOf :: "jv \<Rightarrow> jv" where
  "lengthOf (JArr xs) = JNum (int (length xs))"
| "lengthOf (JStr s) = JNum (int (length s))"
| "lengthOf (JObj kvs) = js_get (JObj kvs) ''length''"
| "lengthOf v = JUndef"

text \<open>
  \<^verbatim>\<open>v * 4\<close> for the value \<open>v\<close> of \<^verbatim>\<open>msg.content?.length || 0\<close>. A number is multiplied,
  \<open>true\<close> counts as 1. \<open>None\<close> stands for \<open>NaN\<close> and for the products this theory
  does not compute, those of a string, an array or an object coerced to a number.
  A run of the driver never gets there: the contents of its history are arrays or
  strings (\<open>run_cost_is_a_number\<close> below).
\<close>

fun times4 :: "jv \<Rightarrow> int option" where
  "times4 (JNum n) = Some (n * 4)"
| "times4 (JBool b) = Some (if b then 4 else 0)"
| "times4 JNull = Some 0"
| "times4 v = None"

text \<open>The contents whose length is a number: arrays and strings.\<close>

fun counted :: "jv \<Rightarrow> bool" where
  "counted (JArr xs) = True"
| "counted (JStr s) = True"
| "counted v = False"

definition messageTokens :: "jv \<Rightarrow> int option" where
  "messageTokens msg = times4 (js_or (lengthOf (js_get msg ''content'')) (JNum 0))"

text \<open>The callback of \<^verbatim>\<open>conversationHistory.reduce\<close>, and the reduction from 0.\<close>

definition addTokens :: "jv \<Rightarrow> int option \<Rightarrow> int option" where
  "addTokens msg acc =
     (case acc of
        None \<Rightarrow> None
      | Some n \<Rightarrow> (case messageTokens msg of None \<Rightarrow> None | Some t \<Rightarrow> Some (n + t)))"

definition totalTokens :: "jv list \<Rightarrow> int option" where
  "totalTokens history = fold addTokens history (Some 0)"

text \<open>
  \<^verbatim>\<open>(totalTokens / 1000000) * 3.0\<close>. JavaScript numbers are IEEE doubles: the sum of the
  lengths is an integer and exact (below \<open>2^53\<close>), the quotient and the product are each
  rounded to a double. The rounding is the parameter \<open>fl\<close>; \<open>exact\<close> rounds nothing.
\<close>

definition exact :: "real \<Rightarrow> real" where
  "exact x = x"

definition estimatedCost :: "(real \<Rightarrow> real) \<Rightarrow> jv list \<Rightarrow> real option" where
  "estimatedCost fl history =
     map_option (\<lambda>t. fl (fl (real_of_int t / 1000000) * 3)) (totalTokens history)"

text \<open>
  A transcript as the driver builds it: each message is a role and an array of content
  blocks, and its history entry is the object \<^verbatim>\<open>{ role, content }\<close>.
\<close>

definition transcriptEntry :: "string \<times> jv list \<Rightarrow> jv" where
  "transcriptEntry m = JObj [(''role'', JStr (fst m)), (''content'', JArr (snd m))]"

text \<open>
  The estimate in the words of the specification: for each message the number of its
  content blocks times the per-block multiplier 4, summed over the transcript, divided
  by 1,000,000 and multiplied by the price 3 per million tokens.
\<close>

definition blockTokens :: "(string \<times> jv list) list \<Rightarrow> int" where
  "blockTokens T = (\<Sum>m\<leftarrow>T. int (length (snd m)) * 4)"

definition specCost :: "(string \<times> jv list) list \<Rightarrow> real" where
  "specCost T = real_of_int (blockTokens T) / 1000000 * 3"

text \<open>
  \<open>extends T T'\<close>: the transcript \<open>T'\<close> is \<open>T\<close> with blocks appended to some of its
  messages and messages appended at its end.
\<close>

fun extends :: "(string \<times> jv list) list \<Rightarrow> (string \<times> jv list) list \<Rightarrow> bool" where
  "extends [] T' = True"
| "extends (m # T) [] = False"
| "extends (m # T) (m' # T') = (fst m = fst m' \<and> prefix (snd m) (snd m') \<and> extends T T')"

subsection \<open>Parameters, collaborators and notifications\<close>

record options =
  model :: "string option"
  maxTurns :: "int option"
  permissionMode :: "string option"
  mcpServers :: "(string \<times> jv) list option"

text \<open>The argument of \<^verbatim>\<open>new ConverseCommand(request)\<close>.\<close>

record request =
  r_modelId :: string
  r_messages :: "jv list"
  r_maxTokens :: int
  r_temperature :: int
  r_toolConfig :: "jv option"

text \<open>
  What the run depends on and does not own: the environment variable read by
  \<open>getBedrockModelId\<close>; the outcome of \<^verbatim>\<open>await bedrockClient.send(command)\<close> in the
  turn of a given number, a reply or a thrown error; \<^verbatim>\<open>Date.now()\<close> as a function of
  the place of the reading (0 at the start of the run, \<open>t\<close> in the decoding of turn
  \<open>t\<close>, \<open>t + 1\<close> when a run of \<open>t\<close> turns builds its result); and the rounding of
  double arithmetic. Every call of the backend settles: a promise that stays pending
  for ever is not a run that ends.
\<close>

record env =
  envModelId :: "string option"
  send :: "nat \<Rightarrow> request \<Rightarrow> js_error + jv"
  clock :: "nat \<Rightarrow> int"
  rounding :: "real \<Rightarrow> real"

text \<open>
  The \<^verbatim>\<open>result\<close> field of a result notification is \<^verbatim>\<open>{success: false, error:
  error.message}\<close> or \<^verbatim>\<open>{success: true, content: 'Task completed via Bedrock'}\<close>.
\<close>

datatype detail = ErrorText js_error | Content string

text \<open>
  The objects the generator yields: \<open>Init model permissionMode\<close> is the
  \<^verbatim>\<open>system\<close>/\<^verbatim>\<open>init\<close> message, \<open>UserEcho prompt\<close> the \<^verbatim>\<open>user\<close> message,
  \<open>Assistant a\<close> the object \<open>transformBedrockMessage\<close> returned, and
  \<open>Result success detail subtype duration_ms total_cost_usd\<close> the \<^verbatim>\<open>result\<close> message.
  The fields that are the same in every run (\<^verbatim>\<open>type\<close>, \<^verbatim>\<open>mcp_servers: []\<close>,
  \<^verbatim>\<open>permission_denials: []\<close>) are left out.
\<close>

datatype notification =
    Init string string
  | UserEcho string
  | Assistant jv
  | Result (success: bool) (detail: detail) (subtype: string) (duration_ms: int)
      (total_cost_usd: "real option")

fun isResult :: "notification \<Rightarrow> bool" where
  "isResult (Result ok d st ms cost) = True"
| "isResult n = False"

fun isAssistant :: "notification \<Rightarrow> bool" where
  "isAssistant (Assistant a) = True"
| "isAssistant n = False"

text \<open>The lines written to the console: the two warnings and the error report.\<close>

datatype log_line = ToolUseWarning | MaxTokensWarning | ApiError js_error

text \<open>
  The state of one run: the two local variables of the generator, what it has yielded
  so far (in order), what it has written to the console, and the requests it has sent.
\<close>

record state =
  turnCount :: nat
  conversationHistory :: "jv list"
  yielded :: "notification list"
  logged :: "log_line list"
  requests :: "request list"

subsection \<open>One turn of the loop\<close>

text \<open>The \<^verbatim>\<open>catch\<close> block: report the error, yield the failing result, return.\<close>

definition catch :: "env \<Rightarrow> state \<Rightarrow> js_error \<Rightarrow> state" where
  "catch e s err =
     s\<lparr>logged := logged s @ [ApiError err],
       yielded := yielded s @
         [Result False (ErrorText err) ''error_during_execution''
            (clock e (turnCount s + 1) - clock e 0) (Some 0)]\<rparr>"

datatype outcome = Continue state | Break state | Return state

definition buildRequest :: "string \<Rightarrow> options \<Rightarrow> state \<Rightarrow> request" where
  "buildRequest modelId opts s =
     \<lparr>r_modelId = modelId,
      r_messages = conversationHistory s,
      r_maxTokens = 4096,
      r_temperature = 1,
      r_toolConfig =
        (case mcpServers opts of
           Some servers \<Rightarrow> if length servers > 0 then Some (JObj [(''tools'', JArr [])]) else None
         | None \<Rightarrow> None)\<rparr>"

text \<open>
  \<^verbatim>\<open>response.output?.message\<close>, and the entry pushed to the history after a reply:
  \<^verbatim>\<open>{ role: 'assistant', content: response.output?.message?.content || [] }\<close>.
\<close>

definition replyMessage :: "jv \<Rightarrow> jv" where
  "replyMessage response = js_get (js_get response ''output'') ''message''"

definition assistantEntry :: "jv \<Rightarrow> jv" where
  "assistantEntry response =
     JObj [(''role'', JStr ''assistant''),
           (''content'', js_or (js_get (replyMessage response) ''content'') (JArr []))]"

text \<open>
  The body of the \<^verbatim>\<open>while\<close> loop. Everything after \<^verbatim>\<open>turnCount++\<close> is inside the
  \<^verbatim>\<open>try\<close>: a rejected \<^verbatim>\<open>send\<close>, a nullish reply (\<^verbatim>\<open>response.output\<close> throws) and a
  throwing \<open>transformBedrockMessage\<close> all end in \<open>catch\<close>.
\<close>

definition turn :: "env \<Rightarrow> string \<Rightarrow> options \<Rightarrow> state \<Rightarrow> outcome" where
  "turn e modelId opts s0 =
     (let s1 = s0\<lparr>turnCount := turnCount s0 + 1\<rparr>;
          s2 = s1\<lparr>requests := requests s1 @ [buildRequest modelId opts s1]\<rparr>
      in case send e (turnCount s2) (buildRequest modelId opts s1) of
           Inl err \<Rightarrow> Return (catch e s2 err)
         | Inr response \<Rightarrow>
             if nullish response then Return (catch e s2 TypeError)
             else
               (case transformBedrockMessage (replyMessage response) modelId
                       (clock e (turnCount s2)) of
                  Inl err \<Rightarrow> Return (catch e s2 err)
                | Inr assistantMessage \<Rightarrow>
                    let s3 = s2\<lparr>yielded := yielded s2 @ [Assistant assistantMessage],
                                conversationHistory :=
                                  conversationHistory s2 @ [assistantEntry response]\<rparr>
                    in if js_get response ''stopReason'' = JStr ''end_turn'' \<or>
                          js_get response ''stopReason'' = JStr ''stop_sequence''
                       then Break s3
                       else Continue
                         (s3\<lparr>logged := logged s3 @
                               (if js_get response ''stopReason'' = JStr ''tool_use''
                                then [ToolUseWarning] else []) @
                               (if js_get response ''stopReason'' = JStr ''max_tokens''
                                then [MaxTokensWarning] else [])\<rparr>)))"

lemma turn_Continue_turnCount:
  "turn e modelId opts s = Continue s' \<Longrightarrow> turnCount s' = turnCount s + 1"
  by (auto simp: turn_def Let_def split: sum.splits if_splits)

subsection \<open>The loop and the run\<close>

text \<open>
  \<^verbatim>\<open>while (turnCount < maxTurns) { ... }\<close>. The loop ends with \<open>Break\<close> when its
  condition fails or its body breaks, and with \<open>Return\<close> when the body returned from
  the \<^verbatim>\<open>catch\<close> block.
\<close>

function loop :: "env \<Rightarrow> string \<Rightarrow> options \<Rightarrow> int \<Rightarrow> state \<Rightarrow> outcome" where
  "loop e modelId opts cap s =
     (if int (turnCount s) < cap then
        (case turn e modelId opts s of
           Continue s' \<Rightarrow> loop e modelId opts cap s'
         | Break s' \<Rightarrow> Break s'
         | Return s' \<Rightarrow> Return s')
      else Break s)"
  by pat_completeness auto
termination
  by (relation "measure (\<lambda>(e, modelId, opts, cap, s). nat (cap - int (turnCount s)))")
     (auto dest: turn_Continue_turnCount)

declare loop.simps [simp del]

text \<open>\<^verbatim>\<open>options.maxTurns || 100\<close> and \<^verbatim>\<open>options.permissionMode || 'default'\<close>.\<close>

definition turnCap :: "options \<Rightarrow> int" where
  "turnCap opts = (case maxTurns opts of Some n \<Rightarrow> if n \<noteq> 0 then n else 100 | None \<Rightarrow> 100)"

definition permissionModeOf :: "options \<Rightarrow> string" where
  "permissionModeOf opts =
     (case permissionMode opts of Some p \<Rightarrow> if p \<noteq> [] then p else ''default'' | None \<Rightarrow> ''default'')"

text \<open>The entry pushed before the loop: \<^verbatim>\<open>{ role: 'user', content: [{ text: prompt }] }\<close>.\<close>

definition userEntry :: "string \<Rightarrow> jv" where
  "userEntry prompt =
     JObj [(''role'', JStr ''user''), (''content'', JArr [JObj [(''text'', JStr prompt)]])]"

definition initialState :: "env \<Rightarrow> string \<Rightarrow> options \<Rightarrow> state" where
  "initialState e prompt opts =
     \<lparr>turnCount = 0,
      conversationHistory = [userEntry prompt],
      yielded = [Init (getBedrockModelId (envModelId e) (model opts)) (permissionModeOf opts),
                 UserEcho prompt],
      logged = [],
      requests = []\<rparr>"

text \<open>The final yield, after the loop.\<close>

definition finish :: "env \<Rightarrow> options \<Rightarrow> state \<Rightarrow> state" where
  "finish e opts s =
     s\<lparr>yielded := yielded s @
         [Result True (Content ''Task completed via Bedrock'')
            (if turnCap opts \<le> int (turnCount s) then ''error_max_turns'' else ''success'')
            (clock e (turnCount s + 1) - clock e 0)
            (estimatedCost (rounding e) (conversationHistory s))]\<rparr>"

text \<open>
  A whole run of the generator, pulled to its end: the state when it is done. No
  statement outside the \<^verbatim>\<open>try\<close> throws (the options are an object, the history holds
  objects), so a run has no other way to end. The loop never ends with \<open>Continue\<close>
  (\<open>loop_yielded\<close> below); the third case is there for the type.
\<close>

definition bedrockQuery :: "env \<Rightarrow> string \<Rightarrow> options \<Rightarrow> state" where
  "bedrockQuery e prompt opts =
     (case loop e (getBedrockModelId (envModelId e) (model opts)) opts (turnCap opts)
             (initialState e prompt opts) of
        Return s \<Rightarrow> s
      | Break s \<Rightarrow> finish e opts s
      | Continue s \<Rightarrow> s)"

subsection \<open>Stubs for running the driver\<close>

text \<open>
  An environment with a given backend, no \<^verbatim>\<open>BEDROCK_MODEL_ID\<close>, a clock that advances
  ten milliseconds between readings, and exact arithmetic; the options of a caller who
  sets only the model; and two well-formed replies of the backend.
\<close>

definition stubClock :: "nat \<Rightarrow> int" where
  "stubClock n = 1000 + 10 * int n"

definition stubEnv :: "(nat \<Rightarrow> request \<Rightarrow> js_error + jv) \<Rightarrow> env" where
  "stubEnv backend =
     \<lparr>envModelId = None, send = backend, clock = stubClock, rounding = exact\<rparr>"

definition defaultOptions :: options where
  "defaultOptions =
     \<lparr>model = Some ''claude-3-haiku-20240307'', maxTurns = None, permissionMode = None,
      mcpServers = None\<rparr>"

definition endTurnReply :: jv where
  "endTurnReply =
     JObj [(''output'',
            JObj [(''message'',
                   JObj [(''role'', JStr ''assistant''),
                         (''content'', JArr [JObj [(''text'', JStr ''done'')]])])]),
           (''stopReason'', JStr ''end_turn'')]"

definition toolUseReply :: jv where
  "toolUseReply =
     JObj [(''output'',
            JObj [(''message'',
                   JObj [(''role'', JStr ''assistant''),
                         (''content'',
                          JArr [JObj [(''toolUse'',
                                      JObj [(''toolUseId'', JStr ''t1''), (''name'', JStr ''ls''),
                                            (''input'', JObj [])])]])])]),
           (''stopReason'', JStr ''tool_use'')]"

section \<open>Streaming reassembler (handleStreamingResponse in bedrock-client.js)\<close>

text \<open>
  What \<^verbatim>\<open>for await (const event of response.body)\<close> delivers, one after the other:
  an event with a chunk whose bytes are the JSON text of a value, an event without a
  chunk, an event whose chunk is not JSON (\<^verbatim>\<open>JSON.parse\<close> throws), or the failure of
  the stream itself (the iteration throws).
\<close>

datatype event = Chunk jv | NoChunk | Unparsable | Failure js_error

text \<open>How the stream of the response ends: \<^verbatim>\<open>controller.close()\<close> or \<^verbatim>\<open>controller.error(error)\<close>.\<close>

datatype stream_end = Closed | Errored js_error

text \<open>The text enqueued for a value: \<^verbatim>\<open>`data: ${JSON.stringify(x)}\n\n`\<close>.\<close>

definition sse :: "jv \<Rightarrow> string" where
  "sse x =
     ''data: '' @ (case JSON_stringify x of JStr t \<Rightarrow> t | other \<Rightarrow> ''undefined'') @
     [CHR 0x0A, CHR 0x0A]"

text \<open>The object built for a \<^verbatim>\<open>message_start\<close> chunk; \<open>now\<close> is \<^verbatim>\<open>Date.now()\<close>.\<close>

definition anthropicChunk :: "string \<Rightarrow> int \<Rightarrow> jv \<Rightarrow> jv" where
  "anthropicChunk modelId now chunk =
     JObj [(''type'', JStr ''message_start''),
           (''message'',
            JObj [(''id'', js_or (js_get (js_get chunk ''message'') ''id'')
                                 (JStr (''bedrock-'' @ show_int now))),
                  (''type'', JStr ''message''),
                  (''role'', JStr ''assistant''),
                  (''content'', JArr []),
                  (''model'', JStr modelId),
                  (''usage'', js_or (js_get (js_get chunk ''message'') ''usage'')
                                    (JObj [(''input_tokens'', JNum 0),
                                           (''output_tokens'', JNum 0)]))])]"

text \<open>
  The chain of \<^verbatim>\<open>if (chunk.type === ...)\<close>: the value to enqueue for a chunk, if any.
  \<^verbatim>\<open>chunk.type\<close> throws on \<open>null\<close> (the JSON text \<^verbatim>\<open>null\<close>); a chunk of a type
  outside the six is passed over.
\<close>

definition transformChunk :: "string \<Rightarrow> int \<Rightarrow> jv \<Rightarrow> js_error + jv option" where
  "transformChunk modelId now chunk =
     (if nullish chunk then Inl TypeError
      else if js_get chunk ''type'' = JStr ''message_start'' then
        Inr (Some (anthropicChunk modelId now chunk))
      else if js_get chunk ''type'' = JStr ''content_block_start'' then Inr (Some chunk)
      else if js_get chunk ''type'' = JStr ''content_block_delta'' then Inr (Some chunk)
      else if js_get chunk ''type'' = JStr ''content_block_stop'' then Inr (Some chunk)
      else if js_get chunk ''type'' = JStr ''message_delta'' then Inr (Some chunk)
      else if js_get chunk ''type'' = JStr ''message_stop'' then Inr (Some chunk)
      else Inr None)"

text \<open>
  The \<^verbatim>\<open>start(controller)\<close> function of the stream: the events are taken in order,
  \<open>queue\<close> is what has been enqueued, \<open>clk i\<close> is \<^verbatim>\<open>Date.now()\<close> while the \<open>i\<close>-th
  event is handled. An error stops the loop and leaves the queue as it is.
\<close>

fun start :: "string \<Rightarrow> (nat \<Rightarrow> int) \<Rightarrow> nat \<Rightarrow> string list \<Rightarrow> event list \<Rightarrow> string list \<times> stream_end" where
  "start modelId clk i queue [] = (queue, Closed)"
| "start modelId clk i queue (Failure err # rest) = (queue, Errored err)"
| "start modelId clk i queue (NoChunk # rest) = start modelId clk (Suc i) queue rest"
| "start modelId clk i queue (Unparsable # rest) = (queue, Errored SyntaxError)"
| "start modelId clk i queue (Chunk chunk # rest) =
     (case transformChunk modelId (clk i) chunk of
        Inl err \<Rightarrow> (queue, Errored err)
      | Inr None \<Rightarrow> start modelId clk (Suc i) queue rest
      | Inr (Some x) \<Rightarrow> start modelId clk (Suc i) (queue @ [sse x]) rest)"

text \<open>
  \<open>handleStreamingResponse\<close>: \<^verbatim>\<open>await bedrockClient.send(command)\<close> either throws, and
  so does the function, or gives the events of the body, which the stream of the
  returned response works through.
\<close>

definition handleStreamingResponse ::
    "string \<Rightarrow> (nat \<Rightarrow> int) \<Rightarrow> js_error + event list \<Rightarrow> js_error + string list \<times> stream_end" where
  "handleStreamingResponse modelId clk sent =
     (case sent of
        Inl err \<Rightarrow> Inl err
      | Inr body \<Rightarrow> Inr (start modelId clk 0 [] body))"

section \<open>Properties of the transcoder\<close>

lemma not_nullish_if_field: "js_get v k = JStr x \<Longrightarrow> \<not> nullish v"
  by (cases v) simp_all

lemma map_err_total:
  "(\<And>x. x \<in> set xs \<Longrightarrow> \<exists>y. f x = Inr y) \<Longrightarrow>
   \<exists>ys. map_err f xs = Inr ys \<and> length ys = length xs"
proof (induction xs)
  case Nil
  then show ?case by simp
next
  case (Cons x xs)
  then obtain y where y: "f x = Inr y" by auto
  from Cons obtain ys where "map_err f xs = Inr ys" "length ys = length xs" by auto
  with y show ?case by simp
qed

lemma map_err_nth:
  "map_err f xs = Inr ys \<Longrightarrow> length ys = length xs \<and> (\<forall>i<length xs. f (xs ! i) = Inr (ys ! i))"
proof (induction xs arbitrary: ys)
  case Nil
  then show ?case by simp
next
  case (Cons x xs)
  then obtain y ys' where s: "f x = Inr y" "map_err f xs = Inr ys'" "ys = y # ys'"
    by (auto split: sum.splits)
  with Cons.IH [of ys'] show ?case by (auto simp: nth_Cons split: nat.splits)
qed

lemma pushAll_concat:
  "list_all (\<lambda>b. \<not> nullish b) blocks \<Longrightarrow>
   pushAll content blocks = Inr (content @ concat (map pushed blocks))"
  by (induction blocks arbitrary: content) auto

lemma part_not_nullish: "\<not> nullish (part_json p)"
  by (cases p) (simp_all add: text_json_def image_json_def)

lemma toolResultPart_total: "\<not> nullish c \<Longrightarrow> \<exists>w. toolResultPart c = Inr w"
  by (simp add: toolResultPart_def)

lemma toolResultPart_unrecognized:
  "\<not> nullish c \<Longrightarrow> js_get c ''type'' \<noteq> JStr ''text'' \<Longrightarrow> js_get c ''type'' \<noteq> JStr ''image'' \<Longrightarrow>
   toolResultPart c = Inr (JObj [(''text'', JStr (json_text c))])"
  by (cases c) (simp_all add: toolResultPart_def JSON_stringify_def)

lemma transformToolResult_total:
  assumes "block_like b" "js_get b ''type'' = JStr ''tool_result''"
  shows "\<exists>w. transformToolResultToBedrock b = Inr w"
proof (cases "js_get b ''content''")
  case (JArr cs)
  with assms have "list_all (\<lambda>c. \<not> nullish c) cs" by (simp add: block_like_def)
  then have "\<And>c. c \<in> set cs \<Longrightarrow> \<exists>w. toolResultPart c = Inr w"
    by (simp add: list_all_iff toolResultPart_total)
  then obtain ys where "map_err toolResultPart cs = Inr ys"
    using map_err_total [of cs toolResultPart] by blast
  with JArr assms show ?thesis by (simp add: transformToolResultToBedrock_def block_like_def)
qed (use assms in \<open>simp_all add: transformToolResultToBedrock_def block_like_def\<close>)

lemma transformBlock_total: "block_like b \<Longrightarrow> \<exists>w. transformBlock b = Inr w"
  using transformToolResult_total [of b]
  by (auto simp: transformBlock_def block_like_def)

lemma transformBlock_unrecognized:
  assumes "\<not> nullish b" "unrecognized b"
  shows "transformBlock b = Inr (JObj [(''text'', JStr (json_text b))])"
  using assms by (cases b) (simp_all add: transformBlock_def JSON_stringify_def unrecognized_def)

lemma transformBlock_canonical:
  "\<exists>w. transformBlock (block_json b) = Inr w \<and> \<not> nullish w \<and>
       pushed w = (if survives b then [block_json b] else [])"
proof (cases b)
  case (ToolResult i parts)
  have "\<And>c. c \<in> set (map part_json parts) \<Longrightarrow> \<exists>w. toolResultPart c = Inr w"
    using part_not_nullish toolResultPart_total by auto
  then obtain ys where "map_err toolResultPart (map part_json parts) = Inr ys"
    using map_err_total [of "map part_json parts" toolResultPart] by blast
  with ToolResult show ?thesis
    by (simp add: transformBlock_def transformToolResultToBedrock_def pushed_def)
qed (simp_all add: transformBlock_def text_json_def image_json_def imagePayload_def pushed_def js_or_def)

lemma encode_canonical_blocks:
  "\<exists>ws. map_err transformBlock (map block_json bs) = Inr ws \<and>
        list_all (\<lambda>w. \<not> nullish w) ws \<and>
        concat (map pushed ws) = map block_json (filter survives bs)"
proof (induction bs)
  case Nil
  then show ?case by simp
next
  case (Cons b bs)
  obtain w where w: "transformBlock (block_json b) = Inr w" "\<not> nullish w"
    "pushed w = (if survives b then [block_json b] else [])"
    using transformBlock_canonical by blast
  from Cons obtain ws where ws: "map_err transformBlock (map block_json bs) = Inr ws"
    "list_all (\<lambda>w. \<not> nullish w) ws"
    "concat (map pushed ws) = map block_json (filter survives bs)"
    by blast
  from w ws show ?case by simp
qed

subsection \<open>Decoding after encoding\<close>

lemma roundtrip_filter:
  "roundtrip modelId now (message_json r bs) = Inr (message_json ''assistant'' (filter survives bs))"
proof -
  obtain ws where ws: "map_err transformBlock (map block_json bs) = Inr ws"
    "list_all (\<lambda>w. \<not> nullish w) ws"
    "concat (map pushed ws) = map block_json (filter survives bs)"
    using encode_canonical_blocks by blast
  have enc: "transformMessageToBedrock (message_json r bs) =
               Inr (JObj [(''role'', JStr r), (''content'', JArr ws)])"
    using ws(1) by (simp add: transformMessageToBedrock_def message_json_def)
  have "pushAll [] ws = Inr (map block_json (filter survives bs))"
    using pushAll_concat [OF ws(2), of "[]"] ws(3) by simp
  then show ?thesis
    using enc
    by (simp add: roundtrip_def decode_encode_def transformBedrockMessage_def
        decoded_message_def message_json_def)
qed


text \<open>
  Claim C1 (as amended). For every message built from the four canonical block kinds,
  encoding and then decoding succeeds and gives an assistant message whose content is
  the message's text blocks with a non-empty text and its tool-use blocks, unchanged
  and in their order. Tool-result blocks, image blocks and text blocks with an empty
  text are not part of the decoded message: \<open>transformBedrockMessage\<close> reads the
  \<^verbatim>\<open>text\<close> and \<^verbatim>\<open>toolUse\<close> fields of a wire block and no other. So decoding after
  encoding is the identity on the assistant messages built only from text blocks with a
  non-empty text and tool-use blocks.
\<close>

theorem roundtrip_canonical:
  "roundtrip modelId now (message_json r bs) =
     Inr (message_json ''assistant'' (filter survives bs)) \<and>
   (list_all survives bs \<longrightarrow>
      roundtrip modelId now (message_json ''assistant'' bs) = Inr (message_json ''assistant'' bs))"
proof -
  have "filter survives bs = bs" if "list_all survives bs"
    using that by (simp add: list_all_iff)
  then show ?thesis
    using roundtrip_filter [of modelId now r bs] roundtrip_filter [of modelId now "''assistant''" bs]
    by simp
qed

text \<open>An assistant message of a text block and a tool-use block comes back as it was.\<close>

theorem roundtrip_canonical_witness:
  "roundtrip ''m'' 0 (message_json ''assistant'' [Text ''hi'', ToolUse ''t1'' ''ls'' (JObj [])]) =
     Inr (message_json ''assistant'' [Text ''hi'', ToolUse ''t1'' ''ls'' (JObj [])])"
  using roundtrip_canonical [of "''m''" 0 "''assistant''" "[Text ''hi'', ToolUse ''t1'' ''ls'' (JObj [])]"]
  by simp

text \<open>
  Claim C1 as stated fails: an assistant message holding one tool-result block is
  decoded, after encoding, to an assistant message with no content.
\<close>

theorem roundtrip_counterexample:
  "roundtrip ''m'' 0 (message_json ''assistant'' [ToolResult ''t1'' [TextPart ''ok'']]) =
     Inr (message_json ''assistant'' []) \<and>
   roundtrip ''m'' 0 (message_json ''assistant'' [ToolResult ''t1'' [TextPart ''ok'']]) \<noteq>
     Inr (message_json ''assistant'' [ToolResult ''t1'' [TextPart ''ok'']])"
  by (simp add: roundtrip_def decode_encode_def transformMessageToBedrock_def transformBlock_def
      transformToolResultToBedrock_def toolResultPart_def transformBedrockMessage_def pushed_def
      decoded_message_def message_json_def text_json_def)

subsection \<open>What decoding returns for each wire block\<close>

text \<open>
  Claim C2 (as amended). For every wire-format message whose content is an array of
  values other than \<open>null\<close> and \<open>undefined\<close>, decoding does not throw, and the
  decoded content is, block after block in the order of the input, what \<open>pushed\<close>
  gives: a text block first when the \<^verbatim>\<open>text\<close> field is truthy, a tool-use block last
  when the \<^verbatim>\<open>toolUse\<close> field is truthy, and nothing for a block where neither is
  truthy.
\<close>

theorem transformBedrockMessage_blocks:
  assumes "\<not> nullish m" and "js_get m ''content'' = JArr blocks"
    and "list_all (\<lambda>b. \<not> nullish b) blocks"
  shows "\<exists>a. transformBedrockMessage m modelId now = Inr a \<and>
             js_get (js_get a ''message'') ''content'' = JArr (concat (map pushed blocks)) \<and>
             (\<forall>b \<in> set blocks.
                (truthy (js_get b ''text'') \<longrightarrow>
                   hd (pushed b) = JObj [(''type'', JStr ''text''), (''text'', js_get b ''text'')]) \<and>
                (truthy (js_get b ''toolUse'') \<longrightarrow>
                   last (pushed b) =
                     JObj [(''type'', JStr ''tool_use''),
                           (''id'', js_get (js_get b ''toolUse'') ''toolUseId''),
                           (''name'', js_get (js_get b ''toolUse'') ''name''),
                           (''input'', js_get (js_get b ''toolUse'') ''input'')]) \<and>
                (\<not> truthy (js_get b ''text'') \<and> \<not> truthy (js_get b ''toolUse'') \<longrightarrow> pushed b = []))"
proof -
  have "pushAll [] blocks = Inr (concat (map pushed blocks))"
    using pushAll_concat [OF assms(3), of "[]"] by simp
  with assms(1,2) have "\<exists>a. transformBedrockMessage m modelId now = Inr a \<and>
      js_get (js_get a ''message'') ''content'' = JArr (concat (map pushed blocks))"
    by (simp add: transformBedrockMessage_def)
  moreover have "\<forall>b \<in> set blocks.
                (truthy (js_get b ''text'') \<longrightarrow>
                   hd (pushed b) = JObj [(''type'', JStr ''text''), (''text'', js_get b ''text'')]) \<and>
                (truthy (js_get b ''toolUse'') \<longrightarrow>
                   last (pushed b) =
                     JObj [(''type'', JStr ''tool_use''),
                           (''id'', js_get (js_get b ''toolUse'') ''toolUseId''),
                           (''name'', js_get (js_get b ''toolUse'') ''name''),
                           (''input'', js_get (js_get b ''toolUse'') ''input'')]) \<and>
                (\<not> truthy (js_get b ''text'') \<and> \<not> truthy (js_get b ''toolUse'') \<longrightarrow> pushed b = [])"
    by (simp add: pushed_def)
  ultimately show ?thesis by blast
qed

theorem transformBedrockMessage_blocks_witness:
  "\<exists>a. transformBedrockMessage
          (JObj [(''role'', JStr ''assistant''),
                 (''content'',
                  JArr [JObj [(''text'', JStr ''hello'')],
                        JObj [(''toolUse'',
                               JObj [(''toolUseId'', JStr ''t1''), (''name'', JStr ''ls''),
                                     (''input'', JObj [])])]])])
          ''m'' 0 = Inr a \<and>
       js_get (js_get a ''message'') ''content'' =
         JArr [JObj [(''type'', JStr ''text''), (''text'', JStr ''hello'')],
               JObj [(''type'', JStr ''tool_use''), (''id'', JStr ''t1''), (''name'', JStr ''ls''),
                     (''input'', JObj [])]]"
  using transformBedrockMessage_blocks
    [of "JObj [(''role'', JStr ''assistant''),
                 (''content'',
                  JArr [JObj [(''text'', JStr ''hello'')],
                        JObj [(''toolUse'',
                               JObj [(''toolUseId'', JStr ''t1''), (''name'', JStr ''ls''),
                                     (''input'', JObj [])])]])]"
        "[JObj [(''text'', JStr ''hello'')],
                        JObj [(''toolUse'',
                               JObj [(''toolUseId'', JStr ''t1''), (''name'', JStr ''ls''),
                                     (''input'', JObj [])])]]" "''m''" 0]
  by (simp add: pushed_def)

text \<open>
  Claim C2 as stated fails: of the three blocks of this reply the second has neither
  field, and the decoded content has two blocks, both text; nothing stands for the
  second.
\<close>

theorem transformBedrockMessage_drops_counterexample:
  "transformBedrockMessage
     (JObj [(''role'', JStr ''assistant''),
            (''content'',
             JArr [JObj [(''text'', JStr ''a'')],
                   JObj [(''image'', JObj [(''format'', JStr ''png'')])],
                   JObj [(''text'', JStr ''b'')]])])
     ''m'' 0 =
   Inr (JObj [(''type'', JStr ''assistant''),
              (''message'',
               JObj [(''id'', JStr ''bedrock-0''),
                     (''type'', JStr ''message''),
                     (''role'', JStr ''assistant''),
                     (''content'',
                      JArr [JObj [(''type'', JStr ''text''), (''text'', JStr ''a'')],
                            JObj [(''type'', JStr ''text''), (''text'', JStr ''b'')]]),
                     (''model'', JStr ''m''),
                     (''stop_reason'', JUndef),
                     (''usage'', JObj [(''input_tokens'', JNum 0), (''output_tokens'', JNum 0)])])])"
  by (simp add: transformBedrockMessage_def pushed_def js_or_def show_int_def digits.simps digit_char_def)

subsection \<open>Encoding never throws on blocks of an unknown kind\<close>

text \<open>
  Claim C3. For every message whose content is an array of content blocks (values that
  are not nullish, a tool result's parts included), encoding returns a wire message
  with one wire block for each block; a block whose \<^verbatim>\<open>type\<close> is none of
  \<^verbatim>\<open>text\<close>, \<^verbatim>\<open>tool_use\<close>, \<^verbatim>\<open>tool_result\<close>, \<^verbatim>\<open>image\<close> is encoded, at its own
  position, as a text payload holding the JSON text of the block.
\<close>

theorem encode_never_raises:
  assumes "\<not> nullish message" and "js_get message ''content'' = JArr bs"
    and "list_all block_like bs"
  shows "\<exists>ws. transformMessageToBedrock message =
                Inr (JObj [(''role'', js_get message ''role''), (''content'', JArr ws)]) \<and>
              length ws = length bs \<and>
              (\<forall>i<length bs. unrecognized (bs ! i) \<longrightarrow>
                 ws ! i = JObj [(''text'', JSON_stringify (bs ! i))] \<and>
                 JSON_stringify (bs ! i) = JStr (json_text (bs ! i)))"
proof -
  have "\<And>b. b \<in> set bs \<Longrightarrow> \<exists>w. transformBlock b = Inr w"
    using assms(3) by (simp add: list_all_iff transformBlock_total)
  then obtain ws where ws: "map_err transformBlock bs = Inr ws"
    using map_err_total [of bs transformBlock] by blast
  then have nth: "length ws = length bs" "\<forall>i<length bs. transformBlock (bs ! i) = Inr (ws ! i)"
    using map_err_nth [OF ws] by simp_all
  have "ws ! i = JObj [(''text'', JSON_stringify (bs ! i))] \<and>
        JSON_stringify (bs ! i) = JStr (json_text (bs ! i))"
    if "i < length bs" "unrecognized (bs ! i)" for i
  proof -
    from that(1) assms(3) have nn: "\<not> nullish (bs ! i)"
      by (simp add: list_all_length block_like_def)
    then have "JSON_stringify (bs ! i) = JStr (json_text (bs ! i))"
      by (cases "bs ! i") (simp_all add: JSON_stringify_def)
    with transformBlock_unrecognized [OF nn that(2)] nth(2) that(1) show ?thesis by simp
  qed
  with ws nth(1) assms(1,2) show ?thesis
    by (simp add: transformMessageToBedrock_def)
qed

theorem encode_never_raises_witness:
  "\<exists>ws. transformMessageToBedrock
           (JObj [(''role'', JStr ''user''),
                  (''content'', JArr [JObj [(''type'', JStr ''video''), (''n'', JNum 7)]])]) =
         Inr (JObj [(''role'', JStr ''user''), (''content'', JArr ws)]) \<and>
        length ws = 1 \<and>
        ws ! 0 = JObj [(''text'', JStr (json_text (JObj [(''type'', JStr ''video''), (''n'', JNum 7)])))]"
  using encode_never_raises
    [of "JObj [(''role'', JStr ''user''),
                  (''content'', JArr [JObj [(''type'', JStr ''video''), (''n'', JNum 7)]])]"
        "[JObj [(''type'', JStr ''video''), (''n'', JNum 7)]]"]
  by (auto simp: block_like_def unrecognized_def)

text \<open>The JSON text of a small value, and a part of a tool result of an unknown kind.\<close>

lemma JSON_stringify_example:
  "JSON_stringify (JArr [JNum 7, JUndef, JBool True, JObj [(''u'', JUndef)]]) = JStr ''[7,null,true,{}]''"
  by (simp add: JSON_stringify_def show_int_def digits.simps digit_char_def)

section \<open>Properties of the conversation driver\<close>

subsection \<open>What a turn and the loop yield\<close>

text \<open>
  A turn that goes on or breaks has yielded one assistant notification; a turn that
  returns has yielded one result. So the loop adds assistant notifications only, and a
  result after them exactly when it returns.
\<close>

lemma turn_Continue_yielded:
  "turn e modelId opts s = Continue s' \<Longrightarrow> \<exists>a. yielded s' = yielded s @ [Assistant a]"
  by (auto simp: turn_def Let_def split: sum.splits if_splits)

lemma turn_Break_yielded:
  "turn e modelId opts s = Break s' \<Longrightarrow> \<exists>a. yielded s' = yielded s @ [Assistant a]"
  by (auto simp: turn_def Let_def split: sum.splits if_splits)

lemma turn_Return_yielded:
  "turn e modelId opts s = Return s' \<Longrightarrow> \<exists>r. yielded s' = yielded s @ [r] \<and> isResult r"
  by (auto simp: turn_def Let_def catch_def split: sum.splits if_splits)

lemma loop_yielded:
  "(loop e modelId opts cap s = Break s' \<longrightarrow>
      (\<exists>as. yielded s' = yielded s @ as \<and> list_all isAssistant as)) \<and>
   (loop e modelId opts cap s = Return s' \<longrightarrow>
      (\<exists>as r. yielded s' = yielded s @ as @ [r] \<and> list_all isAssistant as \<and> isResult r)) \<and>
   loop e modelId opts cap s \<noteq> Continue s'"
proof (induction e modelId opts cap s rule: loop.induct)
  case (1 e modelId opts cap s)
  show ?case
  proof (cases "int (turnCount s) < cap")
    case False
    then show ?thesis by (simp add: loop.simps [of e modelId opts cap s])
  next
    case True
    show ?thesis
    proof (cases "turn e modelId opts s")
      case (Continue s1)
      then obtain a where a: "yielded s1 = yielded s @ [Assistant a]"
        using turn_Continue_yielded by blast
      have eq: "loop e modelId opts cap s = loop e modelId opts cap s1"
        using True Continue by (simp add: loop.simps [of e modelId opts cap s])
      from "1.IH" [OF True Continue] a show ?thesis
        unfolding eq by (auto intro: exI [of _ "Assistant a # as" for as])
    next
      case (Break s1)
      then obtain a where a: "yielded s1 = yielded s @ [Assistant a]"
        using turn_Break_yielded by blast
      with True Break show ?thesis
        by (auto simp: loop.simps [of e modelId opts cap s] intro: exI [of _ "[Assistant a]"])
    next
      case (Return s1)
      then obtain r where "yielded s1 = yielded s @ [r]" "isResult r"
        using turn_Return_yielded by blast
      with True Return show ?thesis
        by (auto simp: loop.simps [of e modelId opts cap s] intro: exI [of _ "[]"])
    qed
  qed
qed

lemma not_Result_if_Assistant: "isAssistant n \<Longrightarrow> \<not> isResult n"
  by (cases n) simp_all

lemma filter_Result_Assistants: "list_all isAssistant as \<Longrightarrow> filter isResult as = []"
  by (induction as) (auto simp: not_Result_if_Assistant)

lemma bedrockQuery_shape:
  "\<exists>as r. yielded (bedrockQuery e prompt opts) =
            Init (getBedrockModelId (envModelId e) (model opts)) (permissionModeOf opts) #
            UserEcho prompt # as @ [r] \<and>
          list_all isAssistant as \<and> isResult r"
proof (cases "loop e (getBedrockModelId (envModelId e) (model opts)) opts (turnCap opts)
                (initialState e prompt opts)")
  case (Continue s)
  with loop_yielded show ?thesis by blast
next
  case (Break s)
  with loop_yielded [of e _ opts _ "initialState e prompt opts" s]
  obtain as where "yielded s = yielded (initialState e prompt opts) @ as" "list_all isAssistant as"
    by blast
  with Break show ?thesis
    by (simp add: bedrockQuery_def finish_def initialState_def)
next
  case (Return s)
  with loop_yielded [of e _ opts _ "initialState e prompt opts" s]
  obtain as r where "yielded s = yielded (initialState e prompt opts) @ as @ [r]"
    "list_all isAssistant as" "isResult r"
    by blast
  with Return show ?thesis
    by (simp add: bedrockQuery_def initialState_def)
qed

lemma not_nullish_if_stopReason: "js_get response ''stopReason'' = JStr x \<Longrightarrow> \<not> nullish response"
  by (rule not_nullish_if_field)

subsection \<open>The stubs\<close>

text \<open>What the stub replies decode to, and the values the stub environment gives.\<close>

lemma decode_endTurnReply:
  "transformBedrockMessage (replyMessage endTurnReply) m now =
     Inr (JObj [(''type'', JStr ''assistant''),
                (''message'',
                 JObj [(''id'', JStr (''bedrock-'' @ show_int now)),
                       (''type'', JStr ''message''),
                       (''role'', JStr ''assistant''),
                       (''content'', JArr [JObj [(''type'', JStr ''text''), (''text'', JStr ''done'')]]),
                       (''model'', JStr m),
                       (''stop_reason'', JUndef),
                       (''usage'', JObj [(''input_tokens'', JNum 0), (''output_tokens'', JNum 0)])])])"
  by (simp add: transformBedrockMessage_def replyMessage_def endTurnReply_def pushed_def js_or_def)

lemma decode_toolUseReply:
  "transformBedrockMessage (replyMessage toolUseReply) m now =
     Inr (JObj [(''type'', JStr ''assistant''),
                (''message'',
                 JObj [(''id'', JStr (''bedrock-'' @ show_int now)),
                       (''type'', JStr ''message''),
                       (''role'', JStr ''assistant''),
                       (''content'',
                        JArr [JObj [(''type'', JStr ''tool_use''), (''id'', JStr ''t1''),
                                    (''name'', JStr ''ls''), (''input'', JObj [])]]),
                       (''model'', JStr m),
                       (''stop_reason'', JUndef),
                       (''usage'', JObj [(''input_tokens'', JNum 0), (''output_tokens'', JNum 0)])])])"
  by (simp add: transformBedrockMessage_def replyMessage_def toolUseReply_def pushed_def js_or_def)

lemma stub_model: "getBedrockModelId (envModelId (stubEnv f)) (model defaultOptions) = ''anthropic.claude-3-haiku-20240307-v1:0''"
  by (simp add: getBedrockModelId_def stubEnv_def defaultOptions_def modelMap_def)

lemma stub_permission: "permissionModeOf defaultOptions = ''default''"
  by (simp add: permissionModeOf_def defaultOptions_def)

lemma stub_clock: "clock (stubEnv f) n = 1000 + 10 * int n" "rounding (stubEnv f) = exact"
  by (simp_all add: stubEnv_def stubClock_def)

lemma cost_two_entries:
  "estimatedCost exact [userEntry p, assistantEntry endTurnReply] = Some (3 / 125000)"
  by (simp add: estimatedCost_def totalTokens_def addTokens_def messageTokens_def userEntry_def
      assistantEntry_def replyMessage_def endTurnReply_def js_or_def exact_def)

lemma cost_four_entries:
  "estimatedCost exact [userEntry p, assistantEntry toolUseReply, assistantEntry toolUseReply,
                     assistantEntry toolUseReply] = Some (3 / 62500)"
  by (simp add: estimatedCost_def totalTokens_def addTokens_def messageTokens_def userEntry_def
      assistantEntry_def replyMessage_def toolUseReply_def js_or_def exact_def)

subsection \<open>Scenario A: the backend ends the turn at once\<close>

text \<open>
  Claim C4. When the turn cap is more than 1 (the default is 100) and the backend
  answers the first request with a reply that decodes and whose stop reason is
  \<^verbatim>\<open>end_turn\<close>, the run yields exactly four notifications, in this order: the init
  notification, the echo of the prompt, one assistant notification carrying the decoded
  reply, and a result with success true and subtype \<^verbatim>\<open>success\<close>. One request was sent.
\<close>

theorem scenario_end_turn:
  assumes cap: "1 < turnCap opts"
    and reply: "\<And>req. send e 1 req = Inr response"
    and stop: "js_get response ''stopReason'' = JStr ''end_turn''"
    and dec: "transformBedrockMessage (replyMessage response)
                (getBedrockModelId (envModelId e) (model opts)) (clock e 1) = Inr a"
  shows "yielded (bedrockQuery e prompt opts) =
           [Init (getBedrockModelId (envModelId e) (model opts)) (permissionModeOf opts),
            UserEcho prompt,
            Assistant a,
            Result True (Content ''Task completed via Bedrock'') ''success''
              (clock e 2 - clock e 0)
              (estimatedCost (rounding e) [userEntry prompt, assistantEntry response])] \<and>
         length (requests (bedrockQuery e prompt opts)) = 1"
proof -
  have nn: "\<not> nullish response"
    using stop by (rule not_nullish_if_stopReason)
  have "loop e (getBedrockModelId (envModelId e) (model opts)) opts (turnCap opts)
          (initialState e prompt opts) =
        Break ((initialState e prompt opts)
          \<lparr>turnCount := 1,
           requests := [buildRequest (getBedrockModelId (envModelId e) (model opts)) opts
                          ((initialState e prompt opts)\<lparr>turnCount := 1\<rparr>)],
           yielded := yielded (initialState e prompt opts) @ [Assistant a],
           conversationHistory := [userEntry prompt, assistantEntry response]\<rparr>)"
    using cap reply nn stop dec
    by (subst loop.simps) (simp add: turn_def Let_def initialState_def)
  then show ?thesis
    using cap by (simp add: bedrockQuery_def finish_def initialState_def numeral_2_eq_2)
qed

theorem scenario_end_turn_witness:
  "yielded (bedrockQuery (stubEnv (\<lambda>t req. Inr endTurnReply)) ''hi'' defaultOptions) =
     [Init ''anthropic.claude-3-haiku-20240307-v1:0'' ''default'',
      UserEcho ''hi'',
      Assistant
        (JObj [(''type'', JStr ''assistant''),
               (''message'',
                JObj [(''id'', JStr ''bedrock-1010''),
                      (''type'', JStr ''message''),
                      (''role'', JStr ''assistant''),
                      (''content'', JArr [JObj [(''type'', JStr ''text''), (''text'', JStr ''done'')]]),
                      (''model'', JStr ''anthropic.claude-3-haiku-20240307-v1:0''),
                      (''stop_reason'', JUndef),
                      (''usage'', JObj [(''input_tokens'', JNum 0), (''output_tokens'', JNum 0)])])]),
      Result True (Content ''Task completed via Bedrock'') ''success'' 20 (Some (3 / 125000))]"
proof -
  have cap: "1 < turnCap defaultOptions"
    by (simp add: turnCap_def defaultOptions_def)
  have reply: "send (stubEnv (\<lambda>t req. Inr endTurnReply)) 1 req = Inr endTurnReply" for req
    by (simp add: stubEnv_def)
  have stop: "js_get endTurnReply ''stopReason'' = JStr ''end_turn''"
    by (simp add: endTurnReply_def)
  from scenario_end_turn [OF cap reply stop decode_endTurnReply, of "''hi''"]
  show ?thesis
    by (simp add: stub_model stub_clock stub_permission cost_two_entries
        show_int_def digits.simps digit_char_def)
qed

subsection \<open>Scenario B: the backend always asks for a tool\<close>

text \<open>
  Claim C5. With a turn cap of 3 and a backend whose every reply decodes and has the
  stop reason \<^verbatim>\<open>tool_use\<close>, the run yields the init notification, the echo of the
  prompt, exactly three assistant notifications and then a result with success true and
  subtype \<^verbatim>\<open>error_max_turns\<close>. Each turn writes the tool-use warning and the loop goes
  on: the next request carries the history with the reply appended and nothing else.
\<close>

theorem scenario_tool_use:
  assumes cap: "maxTurns opts = Some 3"
    and reply: "\<And>t req. send e t req = Inr (reply t)"
    and stop: "\<And>t. js_get (reply t) ''stopReason'' = JStr ''tool_use''"
    and dec: "\<And>t. transformBedrockMessage (replyMessage (reply t))
                (getBedrockModelId (envModelId e) (model opts)) (clock e t) = Inr (a t)"
  shows "yielded (bedrockQuery e prompt opts) =
           [Init (getBedrockModelId (envModelId e) (model opts)) (permissionModeOf opts),
            UserEcho prompt,
            Assistant (a 1), Assistant (a 2), Assistant (a 3),
            Result True (Content ''Task completed via Bedrock'') ''error_max_turns''
              (clock e 4 - clock e 0)
              (estimatedCost (rounding e)
                 [userEntry prompt, assistantEntry (reply 1), assistantEntry (reply 2),
                  assistantEntry (reply 3)])] \<and>
         logged (bedrockQuery e prompt opts) = [ToolUseWarning, ToolUseWarning, ToolUseWarning] \<and>
         map r_messages (requests (bedrockQuery e prompt opts)) =
           [[userEntry prompt],
            [userEntry prompt, assistantEntry (reply 1)],
            [userEntry prompt, assistantEntry (reply 1), assistantEntry (reply 2)]]"
proof -
  have nn: "\<not> nullish (reply t)" for t
    using stop [of t] by (rule not_nullish_if_stopReason)
  have c: "turnCap opts = 3"
    using cap by (simp add: turnCap_def)
  show ?thesis
    using reply nn stop dec
    by (simp add: bedrockQuery_def c loop.simps turn_def Let_def initialState_def finish_def
        buildRequest_def eval_nat_numeral)
qed

theorem scenario_tool_use_witness:
  "map isAssistant
     (yielded (bedrockQuery (stubEnv (\<lambda>t req. Inr toolUseReply)) ''hi''
                 (defaultOptions\<lparr>maxTurns := Some 3\<rparr>))) =
     [False, False, True, True, True, False] \<and>
   last (yielded (bedrockQuery (stubEnv (\<lambda>t req. Inr toolUseReply)) ''hi''
                    (defaultOptions\<lparr>maxTurns := Some 3\<rparr>))) =
     Result True (Content ''Task completed via Bedrock'') ''error_max_turns'' 40 (Some (3 / 62500)) \<and>
   logged (bedrockQuery (stubEnv (\<lambda>t req. Inr toolUseReply)) ''hi''
             (defaultOptions\<lparr>maxTurns := Some 3\<rparr>)) =
     [ToolUseWarning, ToolUseWarning, ToolUseWarning]"
proof -
  have cap: "maxTurns (defaultOptions\<lparr>maxTurns := Some 3\<rparr>) = Some 3"
    by simp
  have reply: "send (stubEnv (\<lambda>t req. Inr toolUseReply)) t req = Inr toolUseReply" for t req
    by (simp add: stubEnv_def)
  have stop: "js_get toolUseReply ''stopReason'' = JStr ''tool_use''"
    by (simp add: toolUseReply_def)
  from scenario_tool_use [OF cap reply stop decode_toolUseReply, of "''hi''"]
  show ?thesis
    by (simp add: stub_clock cost_four_entries)
qed

subsection \<open>Scenario C: the first call fails\<close>

text \<open>
  Claim C6. When there is a first turn (the cap is positive) and the backend call of
  that turn throws an error, the run yields the init notification, the echo of the
  prompt and a result with success false, the error's message, the subtype
  \<^verbatim>\<open>error_during_execution\<close> and cost 0, and nothing else: no assistant notification,
  and no request after the first. The run ends normally, as every run of
  \<open>bedrockQuery\<close> does: the error is a notification, not an exception of the caller.
\<close>

theorem scenario_send_raises:
  assumes cap: "0 < turnCap opts"
    and raises: "\<And>req. send e 1 req = Inl err"
  shows "yielded (bedrockQuery e prompt opts) =
           [Init (getBedrockModelId (envModelId e) (model opts)) (permissionModeOf opts),
            UserEcho prompt,
            Result False (ErrorText err) ''error_during_execution''
              (clock e 2 - clock e 0) (Some 0)] \<and>
         length (requests (bedrockQuery e prompt opts)) = 1 \<and>
         logged (bedrockQuery e prompt opts) = [ApiError err]"
proof -
  have "loop e (getBedrockModelId (envModelId e) (model opts)) opts (turnCap opts)
          (initialState e prompt opts) =
        Return (catch e ((initialState e prompt opts)
          \<lparr>turnCount := 1,
           requests := [buildRequest (getBedrockModelId (envModelId e) (model opts)) opts
                          ((initialState e prompt opts)\<lparr>turnCount := 1\<rparr>)]\<rparr>) err)"
    using cap raises
    by (subst loop.simps) (simp add: initialState_def turn_def Let_def)
  then show ?thesis
    by (simp add: bedrockQuery_def catch_def initialState_def numeral_2_eq_2)
qed

theorem scenario_send_raises_witness:
  "yielded (bedrockQuery (stubEnv (\<lambda>t req. Inl (Thrown ''AccessDenied''))) ''hi'' defaultOptions) =
     [Init ''anthropic.claude-3-haiku-20240307-v1:0'' ''default'',
      UserEcho ''hi'',
      Result False (ErrorText (Thrown ''AccessDenied'')) ''error_during_execution'' 20 (Some 0)] \<and>
   length (requests (bedrockQuery (stubEnv (\<lambda>t req. Inl (Thrown ''AccessDenied''))) ''hi''
                       defaultOptions)) = 1"
proof -
  have cap: "0 < turnCap defaultOptions"
    by (simp add: turnCap_def defaultOptions_def)
  have raises: "send (stubEnv (\<lambda>t req. Inl (Thrown ''AccessDenied''))) 1 req =
                  Inl (Thrown ''AccessDenied'')" for req
    by (simp add: stubEnv_def)
  from scenario_send_raises [OF cap raises, of "''hi''"]
  show ?thesis
    by (simp add: stub_model stub_clock stub_permission)
qed

subsection \<open>One result, at the end\<close>

text \<open>
  Claim C7. In every run, whatever the backend does, exactly one of the notifications
  is a result, it is the last one, and none of those before it is a result.
\<close>

theorem result_once_and_last:
  "length (filter isResult (yielded (bedrockQuery e prompt opts))) = 1 \<and>
   isResult (last (yielded (bedrockQuery e prompt opts))) \<and>
   list_all (\<lambda>n. \<not> isResult n) (butlast (yielded (bedrockQuery e prompt opts)))"
proof -
  obtain as r where s: "yielded (bedrockQuery e prompt opts) =
            Init (getBedrockModelId (envModelId e) (model opts)) (permissionModeOf opts) #
            UserEcho prompt # as @ [r]" "list_all isAssistant as" "isResult r"
    using bedrockQuery_shape by blast
  have "butlast (yielded (bedrockQuery e prompt opts)) =
          Init (getBedrockModelId (envModelId e) (model opts)) (permissionModeOf opts) #
            UserEcho prompt # as"
    using s(1) by (simp add: butlast_append)
  moreover have "list_all (\<lambda>n. \<not> isResult n) as"
    using s(2) by (simp add: list_all_iff not_Result_if_Assistant)
  ultimately show ?thesis
    using s by (simp add: filter_Result_Assistants)
qed

theorem result_once_and_last_witness:
  "length (filter isResult
     (yielded (bedrockQuery (stubEnv (\<lambda>t req. Inr toolUseReply)) ''hi'' defaultOptions))) = 1 \<and>
   isResult (last
     (yielded (bedrockQuery (stubEnv (\<lambda>t req. Inr toolUseReply)) ''hi'' defaultOptions)))"
  using result_once_and_last [of "stubEnv (\<lambda>t req. Inr toolUseReply)" "''hi''" defaultOptions]
  by simp

subsection \<open>The estimate of a run is a number\<close>

text \<open>
  A reply is pushed to the history only after it was decoded, so its content is falsy
  (and the entry gets an empty array) or iterable: every entry of the history has an
  array or a string as content, and the cost of the final result is never undefined.
\<close>

lemma decoded_content_counted:
  assumes "transformBedrockMessage m modelId now = Inr a"
  shows "counted (js_or (js_get m ''content'') (JArr []))"
proof (cases "truthy (js_get m ''content'')")
  case False
  then show ?thesis by (simp add: js_or_def)
next
  case True
  with assms have "\<not> nullish m" "\<exists>bs. iterate (js_get m ''content'') = Inr bs"
    by (auto simp: transformBedrockMessage_def split: if_splits sum.splits)
  then have "counted (js_get m ''content'')"
    by (cases "js_get m ''content''") auto
  with True show ?thesis by (simp add: js_or_def)
qed

lemma messageTokens_counted:
  "counted (js_get msg ''content'') \<Longrightarrow> \<exists>t. messageTokens msg = Some t \<and> 0 \<le> t"
  by (cases "js_get msg ''content''") (auto simp: messageTokens_def js_or_def)

lemma fold_addTokens_counted:
  "list_all (\<lambda>msg. counted (js_get msg ''content'')) h \<Longrightarrow>
   \<exists>t. fold addTokens h (Some n) = Some t"
proof (induction h arbitrary: n)
  case Nil
  then show ?case by simp
next
  case (Cons msg h)
  then obtain t where "messageTokens msg = Some t"
    using messageTokens_counted by fastforce
  with Cons show ?case by (simp add: addTokens_def)
qed

lemma turn_history_counted:
  assumes "list_all (\<lambda>msg. counted (js_get msg ''content'')) (conversationHistory s)"
    and "turn e modelId opts s = Continue s' \<or> turn e modelId opts s = Break s'"
  shows "list_all (\<lambda>msg. counted (js_get msg ''content'')) (conversationHistory s')"
  using assms
  by (auto simp: turn_def Let_def assistantEntry_def dest: decoded_content_counted
      split: sum.splits if_splits)

lemma loop_history_counted:
  "list_all (\<lambda>msg. counted (js_get msg ''content'')) (conversationHistory s) \<Longrightarrow>
   loop e modelId opts cap s = Break s' \<Longrightarrow>
   list_all (\<lambda>msg. counted (js_get msg ''content'')) (conversationHistory s')"
proof (induction e modelId opts cap s rule: loop.induct)
  case (1 e modelId opts cap s)
  show ?case
  proof (cases "int (turnCount s) < cap")
    case False
    with "1.prems" show ?thesis by (simp add: loop.simps [of e modelId opts cap s])
  next
    case True
    show ?thesis
    proof (cases "turn e modelId opts s")
      case (Continue s1)
      with "1.prems"(1) have h: "list_all (\<lambda>msg. counted (js_get msg ''content'')) (conversationHistory s1)"
        using turn_history_counted by blast
      have "loop e modelId opts cap s1 = Break s'"
        using "1.prems"(2) True Continue by (simp add: loop.simps [of e modelId opts cap s])
      with "1.IH" [OF True Continue h] show ?thesis .
    next
      case (Break s1)
      with "1.prems" True have "s1 = s'"
        by (simp add: loop.simps [of e modelId opts cap s])
      with "1.prems"(1) Break show ?thesis
        using turn_history_counted by blast
    next
      case (Return s1)
      with "1.prems" True show ?thesis
        by (simp add: loop.simps [of e modelId opts cap s])
    qed
  qed
qed

lemma turn_Return_failure:
  "turn e modelId opts s = Return s' \<Longrightarrow>
   \<exists>err d. last (yielded s') = Result False (ErrorText err) ''error_during_execution'' d (Some 0)"
  by (auto simp: turn_def Let_def catch_def split: sum.splits if_splits)

lemma loop_Return_failure:
  "loop e modelId opts cap s = Return s' \<Longrightarrow>
   \<exists>err d. last (yielded s') = Result False (ErrorText err) ''error_during_execution'' d (Some 0)"
proof (induction e modelId opts cap s rule: loop.induct)
  case (1 e modelId opts cap s)
  show ?case
  proof (cases "int (turnCount s) < cap")
    case False
    with "1.prems" show ?thesis by (simp add: loop.simps [of e modelId opts cap s])
  next
    case True
    show ?thesis
    proof (cases "turn e modelId opts s")
      case (Continue s1)
      have "loop e modelId opts cap s1 = Return s'"
        using "1.prems" True Continue by (simp add: loop.simps [of e modelId opts cap s])
      with "1.IH" [OF True Continue] show ?thesis .
    next
      case (Break s1)
      with "1.prems" True show ?thesis
        by (simp add: loop.simps [of e modelId opts cap s])
    next
      case (Return s1)
      with "1.prems" True have "s1 = s'"
        by (simp add: loop.simps [of e modelId opts cap s])
      with Return show ?thesis
        using turn_Return_failure by blast
    qed
  qed
qed

lemma run_cost_is_a_number:
  "\<exists>c. total_cost_usd (last (yielded (bedrockQuery e prompt opts))) = Some c"
proof (cases "loop e (getBedrockModelId (envModelId e) (model opts)) opts (turnCap opts)
                (initialState e prompt opts)")
  case (Continue s)
  with loop_yielded show ?thesis by blast
next
  case (Break s)
  have "list_all (\<lambda>msg. counted (js_get msg ''content''))
          (conversationHistory (initialState e prompt opts))"
    by (simp add: initialState_def userEntry_def)
  from loop_history_counted [OF this Break]
  obtain t where "totalTokens (conversationHistory s) = Some t"
    using fold_addTokens_counted unfolding totalTokens_def by blast
  with Break show ?thesis
    by (simp add: bedrockQuery_def finish_def estimatedCost_def)
next
  case (Return s)
  from loop_Return_failure [OF this] Return show ?thesis
    by (auto simp: bedrockQuery_def)
qed

subsection \<open>A natural stop on the last permitted turn\<close>

lemma turn_continues:
  assumes "\<And>req. \<exists>response a. send e (Suc (turnCount s)) req = Inr response \<and>
              \<not> nullish response \<and>
              transformBedrockMessage (replyMessage response) modelId (clock e (Suc (turnCount s))) = Inr a \<and>
              js_get response ''stopReason'' \<noteq> JStr ''end_turn'' \<and>
              js_get response ''stopReason'' \<noteq> JStr ''stop_sequence''"
  shows "\<exists>s' a. turn e modelId opts s = Continue s' \<and> turnCount s' = Suc (turnCount s) \<and>
           yielded s' = yielded s @ [Assistant a]"
proof -
  from assms [of "buildRequest modelId opts (s\<lparr>turnCount := Suc (turnCount s)\<rparr>)"]
  obtain response a where
    "send e (Suc (turnCount s)) (buildRequest modelId opts (s\<lparr>turnCount := Suc (turnCount s)\<rparr>)) = Inr response"
    "\<not> nullish response"
    "transformBedrockMessage (replyMessage response) modelId (clock e (Suc (turnCount s))) = Inr a"
    "js_get response ''stopReason'' \<noteq> JStr ''end_turn''"
    "js_get response ''stopReason'' \<noteq> JStr ''stop_sequence''"
    by blast
  then show ?thesis
    by (simp add: turn_def Let_def)
qed

lemma turn_ends:
  assumes "\<And>req. \<exists>response a. send e (Suc (turnCount s)) req = Inr response \<and>
              transformBedrockMessage (replyMessage response) modelId (clock e (Suc (turnCount s))) = Inr a \<and>
              js_get response ''stopReason'' = JStr ''end_turn''"
  shows "\<exists>s' a. turn e modelId opts s = Break s' \<and> turnCount s' = Suc (turnCount s) \<and>
           yielded s' = yielded s @ [Assistant a]"
proof -
  from assms [of "buildRequest modelId opts (s\<lparr>turnCount := Suc (turnCount s)\<rparr>)"]
  obtain response a where r:
    "send e (Suc (turnCount s)) (buildRequest modelId opts (s\<lparr>turnCount := Suc (turnCount s)\<rparr>)) = Inr response"
    "transformBedrockMessage (replyMessage response) modelId (clock e (Suc (turnCount s))) = Inr a"
    "js_get response ''stopReason'' = JStr ''end_turn''"
    by blast
  from r(3) have "\<not> nullish response" by (rule not_nullish_if_stopReason)
  with r show ?thesis
    by (simp add: turn_def Let_def)
qed

lemma loop_to_last_turn:
  assumes cont: "\<And>t req. 0 < t \<Longrightarrow> t < N \<Longrightarrow>
              \<exists>response a. send e t req = Inr response \<and> \<not> nullish response \<and>
                transformBedrockMessage (replyMessage response) modelId (clock e t) = Inr a \<and>
                js_get response ''stopReason'' \<noteq> JStr ''end_turn'' \<and>
                js_get response ''stopReason'' \<noteq> JStr ''stop_sequence''"
    and fin: "\<And>req. \<exists>response a. send e N req = Inr response \<and>
                transformBedrockMessage (replyMessage response) modelId (clock e N) = Inr a \<and>
                js_get response ''stopReason'' = JStr ''end_turn''"
    and cap: "int N \<le> cap"
  shows "turnCount s < N \<Longrightarrow>
         \<exists>s' as. loop e modelId opts cap s = Break s' \<and> turnCount s' = N \<and>
           yielded s' = yielded s @ as \<and> list_all isAssistant as \<and>
           length as = N - turnCount s"
proof (induction "N - turnCount s" arbitrary: s)
  case 0
  then show ?case by simp
next
  case (Suc k)
  have lt: "int (turnCount s) < cap"
    using Suc.prems cap by linarith
  show ?case
  proof (cases "Suc (turnCount s) = N")
    case True
    with fin have "\<And>req. \<exists>response a. send e (Suc (turnCount s)) req = Inr response \<and>
              transformBedrockMessage (replyMessage response) modelId (clock e (Suc (turnCount s))) = Inr a \<and>
              js_get response ''stopReason'' = JStr ''end_turn''"
      by simp
    from turn_ends [OF this, of opts]
    obtain s' a where "turn e modelId opts s = Break s'" "turnCount s' = Suc (turnCount s)"
      "yielded s' = yielded s @ [Assistant a]"
      by blast
    with lt True show ?thesis
      by (subst loop.simps) auto
  next
    case False
    with Suc.prems have t: "0 < Suc (turnCount s)" "Suc (turnCount s) < N" by simp_all
    from turn_continues [OF cont [OF t], of opts]
    obtain s1 a where s1: "turn e modelId opts s = Continue s1" "turnCount s1 = Suc (turnCount s)"
      "yielded s1 = yielded s @ [Assistant a]"
      by blast
    have "k = N - turnCount s1" "turnCount s1 < N"
      using Suc.hyps(2) s1(2) t by simp_all
    from Suc.hyps(1) [OF this]
    obtain s' as where s': "loop e modelId opts cap s1 = Break s'" "turnCount s' = N"
      "yielded s' = yielded s1 @ as" "list_all isAssistant as" "length as = N - turnCount s1"
      by blast
    have "loop e modelId opts cap s = Break s'"
      using lt s1(1) s'(1) by (subst loop.simps) simp
    moreover have "yielded s' = yielded s @ (Assistant a # as)"
      using s'(3) s1(3) by simp
    moreover have "list_all isAssistant (Assistant a # as)"
      using s'(4) by simp
    moreover have "length (Assistant a # as) = N - turnCount s"
      using s'(5) s1(2) t by simp
    ultimately show ?thesis
      using s'(2) by blast
  qed
qed

text \<open>
  Claim C10. When the turn cap is \<open>N\<close>, the turns before the \<open>N\<close>-th go on (their
  replies decode and do not stop the conversation) and the \<open>N\<close>-th reply decodes and
  has the stop reason \<^verbatim>\<open>end_turn\<close>, the run ends after \<open>N\<close> assistant notifications
  with a result whose success is true and whose subtype is \<^verbatim>\<open>error_max_turns\<close>: the
  subtype only compares the turn counter with the cap.
\<close>

theorem end_turn_on_last_turn:
  assumes cap: "turnCap opts = int N" and pos: "0 < N"
    and cont: "\<And>t req. 0 < t \<Longrightarrow> t < N \<Longrightarrow>
              \<exists>response a. send e t req = Inr response \<and> \<not> nullish response \<and>
                transformBedrockMessage (replyMessage response)
                  (getBedrockModelId (envModelId e) (model opts)) (clock e t) = Inr a \<and>
                js_get response ''stopReason'' \<noteq> JStr ''end_turn'' \<and>
                js_get response ''stopReason'' \<noteq> JStr ''stop_sequence''"
    and fin: "\<And>req. \<exists>response a. send e N req = Inr response \<and>
                transformBedrockMessage (replyMessage response)
                  (getBedrockModelId (envModelId e) (model opts)) (clock e N) = Inr a \<and>
                js_get response ''stopReason'' = JStr ''end_turn''"
  shows "\<exists>as. yielded (bedrockQuery e prompt opts) =
            Init (getBedrockModelId (envModelId e) (model opts)) (permissionModeOf opts) #
            UserEcho prompt # as @
            [Result True (Content ''Task completed via Bedrock'') ''error_max_turns''
               (clock e (N + 1) - clock e 0)
               (estimatedCost (rounding e) (conversationHistory (bedrockQuery e prompt opts)))] \<and>
          list_all isAssistant as \<and> length as = N \<and>
          turnCount (bedrockQuery e prompt opts) = N"
proof -
  have "turnCount (initialState e prompt opts) < N"
    using pos by (simp add: initialState_def)
  from loop_to_last_turn [OF cont fin _ this, of "turnCap opts" opts]
  obtain s' as where s': "loop e (getBedrockModelId (envModelId e) (model opts)) opts (turnCap opts)
       (initialState e prompt opts) = Break s'" "turnCount s' = N"
    "yielded s' = yielded (initialState e prompt opts) @ as" "list_all isAssistant as"
    "length as = N - turnCount (initialState e prompt opts)"
    using cap by auto
  then show ?thesis
    using cap by (simp add: bedrockQuery_def finish_def initialState_def)
qed

theorem end_turn_on_last_turn_witness:
  "\<exists>as. yielded (bedrockQuery
                   (stubEnv (\<lambda>t req. if t = 1 then Inr toolUseReply else Inr endTurnReply))
                   ''hi'' (defaultOptions\<lparr>maxTurns := Some 2\<rparr>)) =
          Init ''anthropic.claude-3-haiku-20240307-v1:0'' ''default'' # UserEcho ''hi'' # as @
          [Result True (Content ''Task completed via Bedrock'') ''error_max_turns'' 30
             (estimatedCost exact
                (conversationHistory
                   (bedrockQuery
                      (stubEnv (\<lambda>t req. if t = 1 then Inr toolUseReply else Inr endTurnReply))
                      ''hi'' (defaultOptions\<lparr>maxTurns := Some 2\<rparr>))))] \<and>
        list_all isAssistant as \<and> length as = 2"
proof -
  have cap: "turnCap (defaultOptions\<lparr>maxTurns := Some 2\<rparr>) = int 2"
    by (simp add: turnCap_def)
  have m: "model (defaultOptions\<lparr>maxTurns := Some 2\<rparr>) = model defaultOptions"
    "permissionModeOf (defaultOptions\<lparr>maxTurns := Some 2\<rparr>) = ''default''"
    by (simp_all add: permissionModeOf_def defaultOptions_def)
  have cont: "\<exists>response a.
      send (stubEnv (\<lambda>t req. if t = 1 then Inr toolUseReply else Inr endTurnReply)) t req =
        Inr response \<and> \<not> nullish response \<and>
      transformBedrockMessage (replyMessage response)
        (getBedrockModelId
           (envModelId (stubEnv (\<lambda>t req. if t = 1 then Inr toolUseReply else Inr endTurnReply)))
           (model (defaultOptions\<lparr>maxTurns := Some 2\<rparr>)))
        (clock (stubEnv (\<lambda>t req. if t = 1 then Inr toolUseReply else Inr endTurnReply)) t) = Inr a \<and>
      js_get response ''stopReason'' \<noteq> JStr ''end_turn'' \<and>
      js_get response ''stopReason'' \<noteq> JStr ''stop_sequence''"
    if "0 < t" "t < 2" for t req
  proof -
    from that have "t = 1" by simp
    then show ?thesis
      by (simp add: stubEnv_def decode_toolUseReply) (simp add: toolUseReply_def)
  qed
  have fin: "\<exists>response a.
      send (stubEnv (\<lambda>t req. if t = 1 then Inr toolUseReply else Inr endTurnReply)) 2 req =
        Inr response \<and>
      transformBedrockMessage (replyMessage response)
        (getBedrockModelId
           (envModelId (stubEnv (\<lambda>t req. if t = 1 then Inr toolUseReply else Inr endTurnReply)))
           (model (defaultOptions\<lparr>maxTurns := Some 2\<rparr>)))
        (clock (stubEnv (\<lambda>t req. if t = 1 then Inr toolUseReply else Inr endTurnReply)) 2) = Inr a \<and>
      js_get response ''stopReason'' = JStr ''end_turn''" for req
    by (simp add: stubEnv_def decode_endTurnReply) (simp add: endTurnReply_def)
  have pos: "0 < (2::nat)" by simp
  from end_turn_on_last_turn [OF cap pos cont fin, of "''hi''"]
  show ?thesis
    by (auto simp: m stub_model stub_clock)
qed

section \<open>Properties of the cost estimate\<close>

lemma messageTokens_entry: "messageTokens (transcriptEntry m) = Some (int (length (snd m)) * 4)"
  by (simp add: messageTokens_def transcriptEntry_def js_or_def)

lemma fold_addTokens:
  "fold addTokens (map transcriptEntry T) (Some n) = Some (n + blockTokens T)"
  by (induction T arbitrary: n) (simp_all add: addTokens_def messageTokens_entry blockTokens_def)

lemma totalTokens_transcript: "totalTokens (map transcriptEntry T) = Some (blockTokens T)"
  using fold_addTokens [of T 0] by (simp add: totalTokens_def)

lemma extends_blockTokens: "extends T T' \<Longrightarrow> blockTokens T \<le> blockTokens T'"
proof (induction T T' rule: extends.induct)
  case (1 T')
  show ?case by (auto simp: blockTokens_def intro!: sum_list_nonneg)
next
  case (2 m T)
  then show ?case by simp
next
  case (3 m T m' T')
  then have "length (snd m) \<le> length (snd m')" "blockTokens T \<le> blockTokens T'"
    by (simp_all add: prefix_length_le)
  then show ?case by (simp add: blockTokens_def)
qed

text \<open>
  Claim C8. For a transcript whose messages hold arrays of content blocks, the estimate
  is the number of blocks of each message times 4, summed over the transcript, divided
  by 1,000,000 and multiplied by 3, each of the two double operations rounded by
  \<open>fl\<close>; with exact arithmetic it is \<open>specCost\<close>. For a rounding that is monotone and
  keeps 0 (as rounding to the nearest double does), the estimate of the empty transcript
  is 0, and appending blocks or messages to a transcript never lowers the estimate.
\<close>

theorem estimatedCost_formula:
  assumes "mono fl" and "fl 0 = 0"
  shows "estimatedCost fl (map transcriptEntry T) =
           Some (fl (fl (real_of_int (blockTokens T) / 1000000) * 3)) \<and>
         estimatedCost exact (map transcriptEntry T) = Some (specCost T) \<and>
         estimatedCost fl [] = Some 0 \<and>
         (extends T T' \<longrightarrow>
            (\<exists>c c'. estimatedCost fl (map transcriptEntry T) = Some c \<and>
                    estimatedCost fl (map transcriptEntry T') = Some c' \<and> c \<le> c'))"
proof -
  have f: "estimatedCost g (map transcriptEntry U) =
             Some (g (g (real_of_int (blockTokens U) / 1000000) * 3))" for g U
    by (simp add: estimatedCost_def totalTokens_transcript)
  have z: "estimatedCost fl [] = Some 0"
    using assms(2) by (simp add: estimatedCost_def totalTokens_def)
  have m: "fl (fl (real_of_int (blockTokens T) / 1000000) * 3) \<le>
           fl (fl (real_of_int (blockTokens T') / 1000000) * 3)" if "extends T T'"
  proof -
    from that have "real_of_int (blockTokens T) / 1000000 \<le> real_of_int (blockTokens T') / 1000000"
      by (simp add: extends_blockTokens divide_right_mono)
    then have "fl (real_of_int (blockTokens T) / 1000000) * 3 \<le>
               fl (real_of_int (blockTokens T') / 1000000) * 3"
      using assms(1) by (simp add: monoD)
    then show ?thesis
      using assms(1) by (rule monoD [rotated])
  qed
  show ?thesis
    using f [of fl T] f [of fl T'] f [of exact T] z m by (simp add: specCost_def exact_def)
qed

theorem estimatedCost_formula_witness:
  "estimatedCost exact (map transcriptEntry [(''user'', [JObj [(''text'', JStr ''hi'')]])]) =
     Some (3 / 250000) \<and>
   estimatedCost exact [] = Some 0 \<and>
   (\<exists>c c'. estimatedCost exact (map transcriptEntry [(''user'', [JObj [(''text'', JStr ''hi'')]])]) =
             Some c \<and>
           estimatedCost exact (map transcriptEntry
              [(''user'', [JObj [(''text'', JStr ''hi'')], JObj [(''text'', JStr ''more'')]]),
               (''assistant'', [])]) = Some c' \<and> c \<le> c')"
proof -
  have r: "mono exact" "exact 0 = 0"
    by (simp_all add: mono_def exact_def)
  have x: "extends [(''user'', [JObj [(''text'', JStr ''hi'')]])]
             [(''user'', [JObj [(''text'', JStr ''hi'')], JObj [(''text'', JStr ''more'')]]),
              (''assistant'', [])]"
    by simp
  have v: "specCost [(''user'', [JObj [(''text'', JStr ''hi'')]])] = 3 / 250000"
    by (simp add: specCost_def blockTokens_def)
  from estimatedCost_formula [OF r,
      of "[(''user'', [JObj [(''text'', JStr ''hi'')]])]"
         "[(''user'', [JObj [(''text'', JStr ''hi'')], JObj [(''text'', JStr ''more'')]]),
           (''assistant'', [])]"] x v
  show ?thesis
    by metis
qed

section \<open>Properties of the streaming reassembler\<close>

text \<open>
  Claim C9. For the three frames \<^verbatim>\<open>message_start\<close> (without a message id),
  \<^verbatim>\<open>content_block_delta\<close>, \<^verbatim>\<open>message_stop\<close>, the reassembler enqueues three events in
  the order of receipt and closes the stream: the object built for the start frame, then
  the two other frames as they came. The start event carries the id
  \<^verbatim>\<open>bedrock-\<close> followed by the time (so it is not empty), the role \<^verbatim>\<open>assistant\<close>, the
  model id the function was called with and, when the frame has no usage, a usage of
  zero input and zero output tokens.
\<close>

theorem streaming_three_frames:
  assumes t1: "js_get c1 ''type'' = JStr ''message_start''"
    and noid: "\<not> truthy (js_get (js_get c1 ''message'') ''id'')"
    and t2: "js_get c2 ''type'' = JStr ''content_block_delta''"
    and t3: "js_get c3 ''type'' = JStr ''message_stop''"
  shows "handleStreamingResponse modelId clk (Inr [Chunk c1, Chunk c2, Chunk c3]) =
           Inr ([sse (anthropicChunk modelId (clk 0) c1), sse c2, sse c3], Closed) \<and>
         js_get (js_get (anthropicChunk modelId (clk 0) c1) ''message'') ''id'' =
           JStr (''bedrock-'' @ show_int (clk 0)) \<and>
         ''bedrock-'' @ show_int (clk 0) \<noteq> [] \<and>
         js_get (js_get (anthropicChunk modelId (clk 0) c1) ''message'') ''role'' = JStr ''assistant'' \<and>
         js_get (js_get (anthropicChunk modelId (clk 0) c1) ''message'') ''model'' = JStr modelId \<and>
         (\<not> truthy (js_get (js_get c1 ''message'') ''usage'') \<longrightarrow>
            js_get (js_get (anthropicChunk modelId (clk 0) c1) ''message'') ''usage'' =
              JObj [(''input_tokens'', JNum 0), (''output_tokens'', JNum 0)])"
proof -
  have nn: "\<not> nullish c1" "\<not> nullish c2" "\<not> nullish c3"
    using t1 t2 t3 by (auto dest: not_nullish_if_field)
  have "start modelId clk 0 [] [Chunk c1, Chunk c2, Chunk c3] =
          ([sse (anthropicChunk modelId (clk 0) c1), sse c2, sse c3], Closed)"
    using nn t1 t2 t3 by (simp add: transformChunk_def)
  then show ?thesis
    using noid by (simp add: handleStreamingResponse_def anthropicChunk_def js_or_def)
qed

theorem streaming_three_frames_witness:
  "handleStreamingResponse ''m'' stubClock
     (Inr [Chunk (JObj [(''type'', JStr ''message_start''),
                        (''message'', JObj [(''role'', JStr ''assistant'')])]),
           Chunk (JObj [(''type'', JStr ''content_block_delta''), (''index'', JNum 0),
                        (''delta'', JObj [(''type'', JStr ''text_delta''), (''text'', JStr ''Hi'')])]),
           Chunk (JObj [(''type'', JStr ''message_stop'')])]) =
   Inr ([sse (JObj [(''type'', JStr ''message_start''),
                    (''message'',
                     JObj [(''id'', JStr ''bedrock-1000''),
                           (''type'', JStr ''message''),
                           (''role'', JStr ''assistant''),
                           (''content'', JArr []),
                           (''model'', JStr ''m''),
                           (''usage'', JObj [(''input_tokens'', JNum 0),
                                             (''output_tokens'', JNum 0)])])]),
         sse (JObj [(''type'', JStr ''content_block_delta''), (''index'', JNum 0),
                    (''delta'', JObj [(''type'', JStr ''text_delta''), (''text'', JStr ''Hi'')])]),
         sse (JObj [(''type'', JStr ''message_stop'')])],
        Closed)"
  using streaming_three_frames
    [of "JObj [(''type'', JStr ''message_start''),
               (''message'', JObj [(''role'', JStr ''assistant'')])]"
        "JObj [(''type'', JStr ''content_block_delta''), (''index'', JNum 0),
               (''delta'', JObj [(''type'', JStr ''text_delta''), (''text'', JStr ''Hi'')])]"
        "JObj [(''type'', JStr ''message_stop'')]" "''m''" stubClock]
  by (simp add: anthropicChunk_def js_or_def stubClock_def show_int_def digits.simps digit_char_def)

text \<open>
  The text enqueued for the last frame, and a stream that fails after its first frame:
  what was enqueued stays in the queue.
\<close>

lemma sse_message_stop:
  "sse (JObj [(''type'', JStr ''message_stop'')]) =
     ''data: {'' @ [CHR 0x22] @ ''type'' @ [CHR 0x22] @ '':'' @ [CHR 0x22] @ ''message_stop'' @
     [CHR 0x22] @ ''}'' @ [CHR 0x0A, CHR 0x0A]"
  by (simp add: sse_def JSON_stringify_def quote_def escape_char_def)

lemma stream_failure_keeps_queue:
  "js_get c ''type'' = JStr ''message_stop'' \<Longrightarrow>
   handleStreamingResponse modelId clk (Inr [Chunk c, Failure err, Chunk c]) =
     Inr ([sse c], Errored err)"
  by (frule not_nullish_if_field) (simp add: handleStreamingResponse_def transformChunk_def)

end
